theory Spec2Isabelle
  imports Complex_Main "HOL-Library.Sublist" "HOL-Library.Multiset"
begin

section \<open>Texts and numbers of the host language\<close>

text \<open>
  A text is the list of its code units. The model keeps the code units below 256 (the
  Latin-1 range, which holds every character of the built-in catalogue and of the
  messages), one \<^typ>\<open>char\<close> each, so that \<^const>\<open>length\<close> is the \<^verbatim>\<open>length\<close> of the
  source. \<^verbatim>\<open>trim\<close> removes the white space of that range at both ends;
  \<^verbatim>\<open>toLowerCase\<close> maps the capital letters of that range to their small forms.
\<close>

definition espacio :: "char \<Rightarrow> bool" where
  "espacio c =
     (c \<in> set [CHR 0x09, CHR 0x0A, CHR 0x0B, CHR 0x0C, CHR 0x0D, CHR 0x20, CHR 0xA0])"

definition trim :: "string \<Rightarrow> string" where
  "trim s = rev (dropWhile espacio (rev (dropWhile espacio s)))"

definition minuscula :: "char \<Rightarrow> char" where
  "minuscula c =
     (let n = (of_char c :: nat)
      in if (65 \<le> n \<and> n \<le> 90) \<or> (192 \<le> n \<and> n \<le> 214) \<or> (216 \<le> n \<and> n \<le> 222)
         then char_of (n + 32) else c)"

definition toLowerCase :: "string \<Rightarrow> string" where
  "toLowerCase s = map minuscula s"

text \<open>\<^verbatim>\<open>s.includes(t)\<close>: the text \<open>t\<close> occurs in \<open>s\<close> at some position.\<close>

fun includes_str :: "string \<Rightarrow> string \<Rightarrow> bool" where
  "includes_str [] t = (t = [])"
| "includes_str (c # cs) t = (prefix t (c # cs) \<or> includes_str cs t)"

text \<open>\<^verbatim>\<open>xs.join(sep)\<close>.\<close>

fun join :: "string \<Rightarrow> string list \<Rightarrow> string" where
  "join sep [] = []"
| "join sep [x] = x"
| "join sep (x # y # ys) = x @ sep @ join sep (y # ys)"

text \<open>
  A number is \<open>NaN\<close> or a value: an integer for what \<^verbatim>\<open>parseInt\<close> reads, a rational for
  the finite decimal that \<^verbatim>\<open>parseFloat\<close> reads. A comparison with \<open>NaN\<close> is false, and
  \<open>NaN\<close> and zero are the numbers that count as false in a condition.
\<close>

datatype 'a numero = NaN | Valor 'a

fun falso :: "'a::zero numero \<Rightarrow> bool" where
  "falso NaN = True"
| "falso (Valor v) = (v = 0)"

fun menor :: "'a::ord numero \<Rightarrow> 'a numero \<Rightarrow> bool" where
  "menor (Valor a) (Valor b) = (a < b)"
| "menor _ _ = False"

fun mayor :: "'a::ord numero \<Rightarrow> 'a numero \<Rightarrow> bool" where
  "mayor (Valor a) (Valor b) = (b < a)"
| "mayor _ _ = False"

fun resta :: "'a::minus numero \<Rightarrow> 'a numero \<Rightarrow> 'a numero" where
  "resta (Valor a) (Valor b) = Valor (a - b)"
| "resta _ _ = NaN"

section \<open>The class Pelicula\<close>

text \<open>
  The fields of a film. \<open>ident\<close> is the field \<^verbatim>\<open>id\<close>. \<open>ano\<close> holds what
  \<^verbatim>\<open>parseInt\<close> read and \<open>calificacion\<close> what \<^verbatim>\<open>parseFloat\<close> read.
  \<open>fechaCreacion\<close> is the instant that the ISO-8601 text of the source denotes, in
  milliseconds since the epoch: the source only ever copies that text or compares two of
  them as dates.
\<close>

record pelicula =
  ident :: string
  titulo :: string
  genero :: string
  director :: string
  ano :: "int numero"
  calificacion :: "rat numero"
  descripcion :: string
  imagen :: string
  fechaCreacion :: int

text \<open>
  What one call of the constructor reads from its environment: the decimal text of
  \<^verbatim>\<open>Date.now()\<close> and the nine characters cut from \<^verbatim>\<open>Math.random().toString(36)\<close>, both
  used by \<^verbatim>\<open>generarID\<close>, and the instant \<^verbatim>\<open>new Date()\<close>.
\<close>

record lectura =
  date_now :: string
  math_random :: string
  new_date :: int

definition generarID :: "lectura \<Rightarrow> string" where
  "generarID r = ''movie_'' @ date_now r @ ''_'' @ math_random r"

text \<open>
  The constructor. The arguments \<open>ano\<close> and \<open>calificacion\<close> are given as the numbers
  that \<^verbatim>\<open>parseInt\<close> and \<^verbatim>\<open>parseFloat\<close> read from them. The last argument is the optional
  \<^verbatim>\<open>id\<close>: \<open>None\<close> when it is left out (\<^verbatim>\<open>null\<close>); an empty text counts as false too.
\<close>

definition Pelicula :: "lectura \<Rightarrow> string \<Rightarrow> string \<Rightarrow> string \<Rightarrow> int numero \<Rightarrow> rat numero
    \<Rightarrow> string \<Rightarrow> string \<Rightarrow> string option \<Rightarrow> pelicula" where
  "Pelicula r t g d a c ds im i =
     \<lparr> ident = (case i of None \<Rightarrow> generarID r
                | Some x \<Rightarrow> if x = [] then generarID r else x),
       titulo = t, genero = g, director = d, ano = a, calificacion = c,
       descripcion = ds, imagen = im, fechaCreacion = new_date r \<rparr>"

text \<open>
  \<^verbatim>\<open>validarURL\<close> asks the platform whether \<^verbatim>\<open>new URL(url)\<close> throws. The platform's
  parser is a parameter: \<open>URL u\<close> holds when the parser accepts the text \<open>u\<close>.
\<close>

definition validarURL :: "(string \<Rightarrow> bool) \<Rightarrow> string \<Rightarrow> bool" where
  "validarURL URL url = URL url"

record validacion =
  valido :: bool
  errores :: "string list"

definition msg_titulo :: string where
  "msg_titulo = ''El t'' @ [CHR 0xED] @ ''tulo debe tener al menos 2 caracteres''"

definition msg_genero :: string where
  "msg_genero = ''Debe seleccionar un g'' @ [CHR 0xE9] @ ''nero''"

definition msg_director :: string where
  "msg_director = ''El director debe tener al menos 2 caracteres''"

definition msg_ano :: string where
  "msg_ano = ''El a'' @ [CHR 0xF1] @ ''o debe estar entre 1900 y el a'' @ [CHR 0xF1]
     @ ''o actual + 5''"

definition msg_calificacion :: string where
  "msg_calificacion = ''La calificaci'' @ [CHR 0xF3] @ ''n debe estar entre 1 y 10''"

definition msg_descripcion :: string where
  "msg_descripcion = ''La descripci'' @ [CHR 0xF3] @ ''n debe tener al menos 10 caracteres''"

definition msg_imagen :: string where
  "msg_imagen = ''Debe proporcionar una URL de imagen v'' @ [CHR 0xE1] @ ''lida''"

text \<open>
  \<^verbatim>\<open>validar\<close>: seven tests one after the other, each pushing its message onto
  \<^verbatim>\<open>errores\<close>. \<open>anio\<close> is \<^verbatim>\<open>new Date().getFullYear()\<close> at the time of the call.
\<close>

definition validar :: "(string \<Rightarrow> bool) \<Rightarrow> int \<Rightarrow> pelicula \<Rightarrow> validacion" where
  "validar URL anio p =
     (let e0 = [];
          e1 = (if titulo p = [] \<or> length (trim (titulo p)) < 2
                then e0 @ [msg_titulo] else e0);
          e2 = (if genero p = [] then e1 @ [msg_genero] else e1);
          e3 = (if director p = [] \<or> length (trim (director p)) < 2
                then e2 @ [msg_director] else e2);
          e4 = (if falso (ano p) \<or> menor (ano p) (Valor 1900)
                     \<or> mayor (ano p) (Valor (anio + 5))
                then e3 @ [msg_ano] else e3);
          e5 = (if falso (calificacion p) \<or> menor (calificacion p) (Valor 1)
                     \<or> mayor (calificacion p) (Valor 10)
                then e4 @ [msg_calificacion] else e4);
          e6 = (if descripcion p = [] \<or> length (trim (descripcion p)) < 10
                then e5 @ [msg_descripcion] else e5);
          e7 = (if imagen p = [] \<or> \<not> validarURL URL (imagen p)
                then e6 @ [msg_imagen] else e6)
      in \<lparr> valido = (length e7 = 0), errores = e7 \<rparr>)"

definition toJSON :: "pelicula \<Rightarrow> pelicula" where
  "toJSON p =
     \<lparr> ident = ident p, titulo = titulo p, genero = genero p, director = director p,
       ano = ano p, calificacion = calificacion p, descripcion = descripcion p,
       imagen = imagen p, fechaCreacion = fechaCreacion p \<rparr>"

subsection \<open>The field rules as the specification words them\<close>

text \<open>
  The seven rules of the data model, in the order of their declaration, each with the
  message that reports its violation: the title and the director have at least 2
  characters after trimming, a genre is present, the year is an integer from 1900 to
  the current year plus 5, the rating is from 1 to 10, the description has at least 10
  characters after trimming, the image is a syntactically valid URL.
\<close>

definition regla_titulo :: "pelicula \<Rightarrow> bool" where
  "regla_titulo p = (2 \<le> length (trim (titulo p)))"

definition regla_genero :: "pelicula \<Rightarrow> bool" where
  "regla_genero p = (genero p \<noteq> [])"

definition regla_director :: "pelicula \<Rightarrow> bool" where
  "regla_director p = (2 \<le> length (trim (director p)))"

definition regla_ano :: "int \<Rightarrow> pelicula \<Rightarrow> bool" where
  "regla_ano anio p = (case ano p of NaN \<Rightarrow> False | Valor n \<Rightarrow> 1900 \<le> n \<and> n \<le> anio + 5)"

definition regla_calificacion :: "pelicula \<Rightarrow> bool" where
  "regla_calificacion p = (case calificacion p of NaN \<Rightarrow> False | Valor c \<Rightarrow> 1 \<le> c \<and> c \<le> 10)"

definition regla_descripcion :: "pelicula \<Rightarrow> bool" where
  "regla_descripcion p = (10 \<le> length (trim (descripcion p)))"

definition regla_imagen :: "(string \<Rightarrow> bool) \<Rightarrow> pelicula \<Rightarrow> bool" where
  "regla_imagen URL p = URL (imagen p)"

definition reglas :: "(string \<Rightarrow> bool) \<Rightarrow> int \<Rightarrow> ((pelicula \<Rightarrow> bool) \<times> string) list" where
  "reglas URL anio =
     [(regla_titulo, msg_titulo), (regla_genero, msg_genero),
      (regla_director, msg_director), (regla_ano anio, msg_ano),
      (regla_calificacion, msg_calificacion), (regla_descripcion, msg_descripcion),
      (regla_imagen URL, msg_imagen)]"

text \<open>The messages of the rules that a film violates, in the order of the rules.\<close>

fun violadas :: "((pelicula \<Rightarrow> bool) \<times> string) list \<Rightarrow> pelicula \<Rightarrow> string list" where
  "violadas [] p = []"
| "violadas ((ok, m) # rs) p = (if ok p then violadas rs p else m # violadas rs p)"

text \<open>
  A sample of the platform's parser, for the examples only: it accepts the texts that
  begin with \<^verbatim>\<open>https://\<close> and go on with at least one more character.
\<close>

definition URL_muestra :: "string \<Rightarrow> bool" where
  "URL_muestra u = (prefix ''https://'' u \<and> 8 < length u)"

section \<open>The class PeliculaManager\<close>

subsection \<open>The store\<close>

text \<open>
  \<^verbatim>\<open>localStorage\<close> keeps one text under the key of the catalogue. The model keeps of a
  text what the manager can observe of it: whether it is the empty text, which counts as
  false in \<^verbatim>\<open>if (data)\<close>, and what \<^verbatim>\<open>JSON.parse\<close> reads from it. \<open>Texto_JSON xs\<close>
  is the text that \<^verbatim>\<open>JSON.stringify\<close> writes for the array \<open>xs\<close> of plain objects, for the
  empty array the two characters \<^verbatim>\<open>[]\<close>; \<^verbatim>\<open>JSON.parse\<close> reads \<open>xs\<close> back from it.
  \<open>Texto_ilegible\<close> is any other text that is not empty: \<^verbatim>\<open>JSON.parse\<close> throws on it, or
  reads a value on which the loop of \<^verbatim>\<open>cargarPeliculas\<close> throws.
\<close>

datatype texto = Texto_vacio | Texto_JSON "pelicula list" | Texto_ilegible

definition JSON_stringify :: "pelicula list \<Rightarrow> texto" where
  "JSON_stringify xs = Texto_JSON xs"

fun JSON_parse :: "texto \<Rightarrow> pelicula list option" where
  "JSON_parse (Texto_JSON xs) = Some xs"
| "JSON_parse Texto_vacio = None"
| "JSON_parse Texto_ilegible = None"

text \<open>
  \<open>valor\<close> is what \<^verbatim>\<open>getItem\<close> returns for the key, \<open>None\<close> for \<^verbatim>\<open>null\<close>. \<open>admite t\<close>
  tells whether \<^verbatim>\<open>setItem\<close> accepts the text \<open>t\<close>; where it does not, it throws (the
  quota of the store is exceeded).
\<close>

record almacen =
  valor :: "texto option"
  admite :: "texto \<Rightarrow> bool"

text \<open>The manager: its field \<^verbatim>\<open>peliculas\<close>, and the store it writes to.\<close>

record estado =
  peliculas :: "pelicula list"
  localStorage :: almacen

text \<open>A call returns a value or throws an \<^verbatim>\<open>Error\<close> with a message.\<close>

datatype 'a salida = Retorna 'a | Lanza string

text \<open>The object that the operations return; \<open>pelicula_res\<close> is its field \<^verbatim>\<open>pelicula\<close>.\<close>

record resultado =
  exito :: bool
  mensaje :: string
  pelicula_res :: "pelicula option"

definition msg_guardar :: string where
  "msg_guardar = ''No se pudieron guardar las pel'' @ [CHR 0xED] @ ''culas''"

definition msg_agregada :: string where
  "msg_agregada = ''Pel'' @ [CHR 0xED] @ ''cula agregada exitosamente''"

definition msg_actualizada :: string where
  "msg_actualizada = ''Pel'' @ [CHR 0xED] @ ''cula actualizada exitosamente''"

definition msg_eliminada :: string where
  "msg_eliminada = ''Pel'' @ [CHR 0xED] @ ''cula eliminada exitosamente''"

definition msg_no_encontrada :: string where
  "msg_no_encontrada = ''Pel'' @ [CHR 0xED] @ ''cula no encontrada''"

subsection \<open>Loading and saving\<close>

definition guardarPeliculas :: "estado \<Rightarrow> unit salida \<times> estado" where
  "guardarPeliculas s =
     (let peliculasJSON = map toJSON (peliculas s);
          t = JSON_stringify peliculasJSON
      in if admite (localStorage s) t
         then (Retorna (), s\<lparr> localStorage := (localStorage s)\<lparr> valor := Some t \<rparr> \<rparr>)
         else (Lanza msg_guardar, s))"

text \<open>
  The built-in catalogue. Each of its eight calls of the constructor has its own reading
  of the environment, \<open>rs 0\<close> to \<open>rs 7\<close>.
\<close>

definition peliculasIniciales :: "(nat \<Rightarrow> lectura) \<Rightarrow> pelicula list" where
  "peliculasIniciales rs =
     [
      Pelicula (rs 0)
        (''Matrix'')
        (''Ciencia Ficci'' @ [CHR 0xF3] @ ''n'')
        (''Lana Wachowski, Lilly Wachowski'')
        (Valor 1999) (Valor (87 / 10))
        (''Un hacker descubre la impactante verdad sobre su realidad y su ''
          @ ''papel en la guerra contra sus controladores.'')
        (''https://image.tmdb.org/t/p/w500/f89U3ADr1oiB1s9GkdPOEpXUk5H.jpg'')
        None,
      Pelicula (rs 1)
        (''El Padrino'')
        (''Drama'')
        (''Francis Ford Coppola'')
        (Valor 1972) (Valor (92 / 10))
        (''El patriarca envejecido de una dinast'' @ [CHR 0xED]
          @ ''a del crimen organizado transfiere el control de su imperio ''
          @ ''clandestino a su hijo reacio.'')
        (''https://image.tmdb.org/t/p/w500/3bhkrj58Vtu7enYsRolD1fZdja1.jpg'')
        None,
      Pelicula (rs 2)
        (''Inception'')
        (''Ciencia Ficci'' @ [CHR 0xF3] @ ''n'')
        (''Christopher Nolan'')
        (Valor 2010) (Valor (88 / 10))
        (''Un ladr'' @ [CHR 0xF3]
          @ ''n que roba secretos corporativos mediante el uso de tecnolog''
          @ [CHR 0xED] @ ''a de sue'' @ [CHR 0xF1]
          @ ''os compartidos recibe la tarea inversa de plantar una idea.'')
        (''https://image.tmdb.org/t/p/w500/9gk7adHYeDvHkCSEqAvQNLV5Uge.jpg'')
        None,
      Pelicula (rs 3)
        (''Forrest Gump'')
        (''Drama'')
        (''Robert Zemeckis'')
        (Valor 1994) (Valor (88 / 10))
        (''Las presidencias de Kennedy y Johnson, los eventos de Vietnam, ''
          @ ''Watergate y otros eventos hist'' @ [CHR 0xF3]
          @ ''ricos se desarrollan a trav'' @ [CHR 0xE9]
          @ ''s de la perspectiva de un hombre de Alabama.'')
        (''https://image.tmdb.org/t/p/w500/arw2vcBveWOVZr6pxd9XTd1TdQa.jpg'')
        None,
      Pelicula (rs 4)
        (''Pulp Fiction'')
        (''Acci'' @ [CHR 0xF3] @ ''n'')
        (''Quentin Tarantino'')
        (Valor 1994) (Valor (89 / 10))
        (''Las vidas de dos asesinos a sueldo, un boxeador, la esposa de un g''
          @ [CHR 0xE1]
          @ ''nster y dos bandidos se entrelazan en cuatro historias de ''
          @ ''violencia y redenci'' @ [CHR 0xF3] @ ''n.'')
        (''https://image.tmdb.org/t/p/w500/d5iIlFn5s0ImszYzBPb8JPIfbXD.jpg'')
        None,
      Pelicula (rs 5)
        (''Interestelar'')
        (''Ciencia Ficci'' @ [CHR 0xF3] @ ''n'')
        (''Christopher Nolan'')
        (Valor 2014) (Valor (86 / 10))
        (''Un equipo de exploradores viaja a trav'' @ [CHR 0xE9]
          @ ''s de un agujero de gusano en el espacio en un intento de asegurar ''
          @ ''la supervivencia de la humanidad.'')
        (''https://image.tmdb.org/t/p/w500/gEU2QniE6E77NI6lCU6MxlNBvIx.jpg'')
        None,
      Pelicula (rs 6)
        (''El Se'' @ [CHR 0xF1] @ ''or de los Anillos: El Retorno del Rey'')
        (''Aventura'')
        (''Peter Jackson'')
        (Valor 2003) (Valor (89 / 10))
        (''Gandalf y Aragorn lideran el Mundo de los Hombres contra el ej''
          @ [CHR 0xE9]
          @ ''rcito de Sauron para atraer su mirada de Frodo y Sam mientras se ''
          @ ''acercan al Monte del Destino.'')
        (''https://image.tmdb.org/t/p/w500/rCzpDGLbOoPwLjy3OAm5NUPOTrC.jpg'')
        None,
      Pelicula (rs 7)
        (''Gladiador'')
        (''Acci'' @ [CHR 0xF3] @ ''n'')
        (''Ridley Scott'')
        (Valor 2000) (Valor (85 / 10))
        (''Un ex general romano busca venganza contra el corrupto emperador ''
          @ ''que asesin'' @ [CHR 0xF3] @ '' a su familia y lo envi''
          @ [CHR 0xF3] @ '' a la esclavitud.'')
        (''https://image.tmdb.org/t/p/w500/ty8TGRuvJLPUmAR1H1nRIsgwvim.jpg'')
        None
     ]"

definition obtenerPeliculasIniciales ::
    "(nat \<Rightarrow> lectura) \<Rightarrow> estado \<Rightarrow> pelicula list salida \<times> estado" where
  "obtenerPeliculasIniciales rs s =
     (let ini = peliculasIniciales rs;
          s1 = s\<lparr> peliculas := ini \<rparr>
      in case guardarPeliculas s1 of
           (Lanza e, s2) \<Rightarrow> (Lanza e, s2)
         | (Retorna u, s2) \<Rightarrow> (Retorna ini, s2))"

text \<open>
  The function that \<^verbatim>\<open>cargarPeliculas\<close> maps over the parsed array. The year and the
  rating of a stored object are the numbers that the constructor reads from them once
  more: an integer of a magnitude below \<open>10\<^sup>2\<^sup>1\<close>, a finite decimal and \<open>NaN\<close>
  (kept as \<^verbatim>\<open>null\<close>) are read back as they are. A stored year of a larger magnitude,
  which \<^verbatim>\<open>parseInt\<close> would read as its first digit, is outside the model.
\<close>

definition cargar_una :: "lectura \<Rightarrow> pelicula \<Rightarrow> pelicula" where
  "cargar_una r p =
     (Pelicula r (titulo p) (genero p) (director p) (ano p) (calificacion p)
        (descripcion p) (imagen p) (Some (ident p)))
     \<lparr> fechaCreacion := fechaCreacion p \<rparr>"

text \<open>
  \<^verbatim>\<open>cargarPeliculas\<close>. Inside \<^verbatim>\<open>try\<close>: with a text that is not empty, parse it and build
  the films, the \<open>i\<close>-th with the reading \<open>rs i\<close>; without one, fall back on the built-in
  catalogue. Whatever is thrown inside \<^verbatim>\<open>try\<close>, by the parser or by the saving of the
  built-in catalogue, is caught, and the handler falls back on the built-in catalogue
  (once more, with the readings from \<open>rs 8\<close> on, where the first attempt threw).
\<close>

definition cargarPeliculas ::
    "(nat \<Rightarrow> lectura) \<Rightarrow> estado \<Rightarrow> pelicula list salida \<times> estado" where
  "cargarPeliculas rs s =
     (let sin_datos =
            (case obtenerPeliculasIniciales rs s of
               (Lanza e, s1) \<Rightarrow> obtenerPeliculasIniciales (\<lambda>i. rs (i + 8)) s1
             | (Retorna ini, s1) \<Rightarrow> (Retorna ini, s1))
      in case valor (localStorage s) of
           None \<Rightarrow> sin_datos
         | Some data \<Rightarrow>
             if data = Texto_vacio then sin_datos
             else (case JSON_parse data of
                     Some peliculasData \<Rightarrow>
                       (Retorna (map (\<lambda>(i, p). cargar_una (rs i) p)
                                  (enumerate 0 peliculasData)), s)
                   | None \<Rightarrow> obtenerPeliculasIniciales rs s))"

text \<open>
  The constructor of the manager, on a store \<open>a\<close>: it assigns what \<^verbatim>\<open>cargarPeliculas\<close>
  returns, and there is no manager when that throws.
\<close>

definition PeliculaManager :: "(nat \<Rightarrow> lectura) \<Rightarrow> almacen \<Rightarrow> estado salida" where
  "PeliculaManager rs a =
     (case cargarPeliculas rs \<lparr> peliculas = [], localStorage = a \<rparr> of
        (Lanza e, s) \<Rightarrow> Lanza e
      | (Retorna ps, s) \<Rightarrow> Retorna (s\<lparr> peliculas := ps \<rparr>))"

subsection \<open>Queries\<close>

text \<open>\<^verbatim>\<open>findIndex\<close>: the position of the first element that satisfies \<open>P\<close>, or \<open>-1\<close>.\<close>

fun findIndex :: "('a \<Rightarrow> bool) \<Rightarrow> 'a list \<Rightarrow> int" where
  "findIndex P [] = - 1"
| "findIndex P (x # xs) =
     (if P x then 0 else (let i = findIndex P xs in if i = - 1 then - 1 else i + 1))"

text \<open>
  \<^verbatim>\<open>sort\<close> with a comparator: it is stable, it looks only at the sign of what the
  comparator returns, and a \<open>NaN\<close> from the comparator counts as zero. Each element,
  from the last to the first, goes before the first element of the sorted rest that it
  does not exceed. With a comparator that is not consistent (which happens only with
  \<open>NaN\<close>) the platform may return another order.
\<close>

fun insertar :: "('a \<Rightarrow> 'a \<Rightarrow> 'n::{zero,ord} numero) \<Rightarrow> 'a \<Rightarrow> 'a list \<Rightarrow> 'a list" where
  "insertar cmp x [] = [x]"
| "insertar cmp x (y # ys) =
     (if mayor (cmp x y) (Valor 0) then y # insertar cmp x ys else x # y # ys)"

definition js_sort :: "('a \<Rightarrow> 'a \<Rightarrow> 'n::{zero,ord} numero) \<Rightarrow> 'a list \<Rightarrow> 'a list" where
  "js_sort cmp xs = foldr (insertar cmp) xs []"

text \<open>
  The queries, as functions of the array \<^verbatim>\<open>this.peliculas\<close>. \<open>None\<close> is \<^verbatim>\<open>null\<close> in
  \<open>obtenerPorId\<close>, and an argument left out in \<open>obtenerRecientes\<close>, \<open>ordenarPorCalificacion\<close>
  and \<open>ordenarPorAno\<close>. The argument of \<open>obtenerRecientes\<close> is a number of films.
\<close>

definition obtenerTodas :: "pelicula list \<Rightarrow> pelicula list" where
  "obtenerTodas ps = ps"

definition obtenerPorId :: "string \<Rightarrow> pelicula list \<Rightarrow> pelicula option" where
  "obtenerPorId i ps = find (\<lambda>p. ident p = i) ps"

definition coincide :: "string \<Rightarrow> pelicula \<Rightarrow> bool" where
  "coincide terminoLower p =
     (includes_str (toLowerCase (titulo p)) terminoLower
      \<or> includes_str (toLowerCase (director p)) terminoLower
      \<or> includes_str (toLowerCase (descripcion p)) terminoLower)"

definition buscar :: "string \<Rightarrow> pelicula list \<Rightarrow> pelicula list" where
  "buscar termino ps =
     (if termino = [] \<or> trim termino = [] then obtenerTodas ps
      else (let terminoLower = toLowerCase termino in filter (coincide terminoLower) ps))"

definition filtrarPorGenero :: "string \<Rightarrow> pelicula list \<Rightarrow> pelicula list" where
  "filtrarPorGenero g ps =
     (if g = [] \<or> g = [] then obtenerTodas ps else filter (\<lambda>p. genero p = g) ps)"

definition buscarYFiltrar :: "string \<Rightarrow> string \<Rightarrow> pelicula list \<Rightarrow> pelicula list" where
  "buscarYFiltrar termino g ps =
     (let resultado = obtenerTodas ps;
          resultado = (if g \<noteq> [] \<and> g \<noteq> [] then filter (\<lambda>p. genero p = g) resultado
                       else resultado);
          resultado = (if termino \<noteq> [] \<and> trim termino \<noteq> []
                       then (let terminoLower = toLowerCase termino
                             in filter (coincide terminoLower) resultado)
                       else resultado)
      in resultado)"

definition cmp_recientes :: "pelicula \<Rightarrow> pelicula \<Rightarrow> int numero" where
  "cmp_recientes a b = Valor (fechaCreacion b - fechaCreacion a)"

definition cmp_calificacion :: "bool \<Rightarrow> pelicula \<Rightarrow> pelicula \<Rightarrow> rat numero" where
  "cmp_calificacion descendente a b =
     (if descendente then resta (calificacion b) (calificacion a)
      else resta (calificacion a) (calificacion b))"

definition cmp_ano :: "bool \<Rightarrow> pelicula \<Rightarrow> pelicula \<Rightarrow> int numero" where
  "cmp_ano descendente a b =
     (if descendente then resta (ano b) (ano a) else resta (ano a) (ano b))"

definition obtenerRecientes :: "nat option \<Rightarrow> pelicula list \<Rightarrow> pelicula list" where
  "obtenerRecientes cantidad ps =
     take (case cantidad of None \<Rightarrow> 5 | Some n \<Rightarrow> n) (js_sort cmp_recientes ps)"

definition ordenarPorCalificacion :: "bool option \<Rightarrow> pelicula list \<Rightarrow> pelicula list" where
  "ordenarPorCalificacion descendente ps =
     js_sort (cmp_calificacion (case descendente of None \<Rightarrow> True | Some d \<Rightarrow> d)) ps"

definition ordenarPorAno :: "bool option \<Rightarrow> pelicula list \<Rightarrow> pelicula list" where
  "ordenarPorAno descendente ps =
     js_sort (cmp_ano (case descendente of None \<Rightarrow> True | Some d \<Rightarrow> d)) ps"

subsection \<open>Adding, updating, deleting\<close>

text \<open>The payload of an update, its numbers as the constructor reads them.\<close>

record datos =
  titulo_d :: string
  genero_d :: string
  director_d :: string
  ano_d :: "int numero"
  calificacion_d :: "rat numero"
  descripcion_d :: string
  imagen_d :: string

definition fallo :: "string \<Rightarrow> resultado" where
  "fallo m = \<lparr> exito = False, mensaje = m, pelicula_res = None \<rparr>"

definition agregar ::
    "(string \<Rightarrow> bool) \<Rightarrow> int \<Rightarrow> pelicula \<Rightarrow> estado \<Rightarrow> resultado salida \<times> estado" where
  "agregar URL anio p s =
     (let validacion = validar URL anio p
      in if \<not> valido validacion
         then (Retorna (fallo (join [CHR 0x0A] (errores validacion))), s)
         else (let s1 = s\<lparr> peliculas := peliculas s @ [p] \<rparr>
               in case guardarPeliculas s1 of
                    (Lanza e, s2) \<Rightarrow> (Lanza e, s2)
                  | (Retorna u, s2) \<Rightarrow>
                      (Retorna \<lparr> exito = True, mensaje = msg_agregada,
                                 pelicula_res = Some p \<rparr>, s2)))"

definition actualizar ::
    "(string \<Rightarrow> bool) \<Rightarrow> int \<Rightarrow> lectura \<Rightarrow> string \<Rightarrow> datos \<Rightarrow> estado
      \<Rightarrow> resultado salida \<times> estado" where
  "actualizar URL anio r i d s =
     (let index = findIndex (\<lambda>p. ident p = i) (peliculas s)
      in if index = - 1 then (Retorna (fallo msg_no_encontrada), s)
         else (let nueva = Pelicula r (titulo_d d) (genero_d d) (director_d d) (ano_d d)
                             (calificacion_d d) (descripcion_d d) (imagen_d d) (Some i);
                   peliculaActualizada =
                     nueva\<lparr> fechaCreacion := fechaCreacion (peliculas s ! nat index) \<rparr>;
                   validacion = validar URL anio peliculaActualizada
               in if \<not> valido validacion
                  then (Retorna (fallo (join [CHR 0x0A] (errores validacion))), s)
                  else (let s1 = s\<lparr> peliculas :=
                                      (peliculas s)[nat index := peliculaActualizada] \<rparr>
                        in case guardarPeliculas s1 of
                             (Lanza e, s2) \<Rightarrow> (Lanza e, s2)
                           | (Retorna u, s2) \<Rightarrow>
                               (Retorna \<lparr> exito = True, mensaje = msg_actualizada,
                                          pelicula_res = None \<rparr>, s2))))"

text \<open>\<^verbatim>\<open>splice(index, 1)\<close> takes the element at \<open>index\<close> out of the array.\<close>

definition splice1 :: "nat \<Rightarrow> 'a list \<Rightarrow> 'a list" where
  "splice1 n xs = take n xs @ drop (Suc n) xs"

definition eliminar :: "string \<Rightarrow> estado \<Rightarrow> resultado salida \<times> estado" where
  "eliminar i s =
     (let index = findIndex (\<lambda>p. ident p = i) (peliculas s)
      in if index = - 1 then (Retorna (fallo msg_no_encontrada), s)
         else (let s1 = s\<lparr> peliculas := splice1 (nat index) (peliculas s) \<rparr>
               in case guardarPeliculas s1 of
                    (Lanza e, s2) \<Rightarrow> (Lanza e, s2)
                  | (Retorna u, s2) \<Rightarrow>
                      (Retorna \<lparr> exito = True, mensaje = msg_eliminada,
                                 pelicula_res = None \<rparr>, s2)))"

subsection \<open>A caller\<close>

text \<open>
  The three operations that change the catalogue, as calls with their arguments and with
  what each reads from its environment (the current year, the reading of the
  constructor), and a caller that makes a sequence of them, whatever each returns or
  throws.
\<close>

datatype llamada =
    Agregar int pelicula
  | Actualizar int lectura string datos
  | Eliminar string

fun llamar :: "(string \<Rightarrow> bool) \<Rightarrow> llamada \<Rightarrow> estado \<Rightarrow> estado" where
  "llamar URL (Agregar anio p) s = snd (agregar URL anio p s)"
| "llamar URL (Actualizar anio r i d) s = snd (actualizar URL anio r i d s)"
| "llamar URL (Eliminar i) s = snd (eliminar i s)"

fun llamadas :: "(string \<Rightarrow> bool) \<Rightarrow> llamada list \<Rightarrow> estado \<Rightarrow> estado" where
  "llamadas URL [] s = s"
| "llamadas URL (c # cs) s = llamadas URL cs (llamar URL c s)"

subsection \<open>The queries on arrays that are objects\<close>

text \<open>
  \<^verbatim>\<open>sort\<close> changes the array it is called on, and an array is shared by everyone who
  holds it. To see what a query does to \<^verbatim>\<open>this.peliculas\<close>, the queries are written
  once more over a memory of arrays: \<open>arreglos m ! a\<close> is the content of the array at
  the address \<open>a\<close>, and \<open>this_peliculas m\<close> is the address that the field of the manager
  holds. A spread \<^verbatim>\<open>[...a]\<close>, \<^verbatim>\<open>filter\<close> and \<^verbatim>\<open>slice\<close> make a new array; \<^verbatim>\<open>sort\<close> writes
  into the one it is given and returns it.
\<close>

record memoria =
  arreglos :: "pelicula list list"
  this_peliculas :: nat
  localStorage_m :: almacen

definition nuevo :: "pelicula list \<Rightarrow> memoria \<Rightarrow> nat \<times> memoria" where
  "nuevo xs m = (length (arreglos m), m\<lparr> arreglos := arreglos m @ [xs] \<rparr>)"

definition spread_a :: "nat \<Rightarrow> memoria \<Rightarrow> nat \<times> memoria" where
  "spread_a a m = nuevo (arreglos m ! a) m"

definition filter_a :: "(pelicula \<Rightarrow> bool) \<Rightarrow> nat \<Rightarrow> memoria \<Rightarrow> nat \<times> memoria" where
  "filter_a P a m = nuevo (filter P (arreglos m ! a)) m"

definition slice_a :: "nat \<Rightarrow> nat \<Rightarrow> memoria \<Rightarrow> nat \<times> memoria" where
  "slice_a n a m = nuevo (take n (arreglos m ! a)) m"

definition sort_a ::
    "(pelicula \<Rightarrow> pelicula \<Rightarrow> 'n::{zero,ord} numero) \<Rightarrow> nat \<Rightarrow> memoria \<Rightarrow> nat \<times> memoria" where
  "sort_a cmp a m = (a, m\<lparr> arreglos := (arreglos m)[a := js_sort cmp (arreglos m ! a)] \<rparr>)"

definition obtenerTodas_m :: "memoria \<Rightarrow> nat \<times> memoria" where
  "obtenerTodas_m m = spread_a (this_peliculas m) m"

definition obtenerPorId_m :: "string \<Rightarrow> memoria \<Rightarrow> pelicula option \<times> memoria" where
  "obtenerPorId_m i m = (find (\<lambda>p. ident p = i) (arreglos m ! this_peliculas m), m)"

definition buscar_m :: "string \<Rightarrow> memoria \<Rightarrow> nat \<times> memoria" where
  "buscar_m termino m =
     (if termino = [] \<or> trim termino = [] then obtenerTodas_m m
      else (let terminoLower = toLowerCase termino
            in filter_a (coincide terminoLower) (this_peliculas m) m))"

definition filtrarPorGenero_m :: "string \<Rightarrow> memoria \<Rightarrow> nat \<times> memoria" where
  "filtrarPorGenero_m g m =
     (if g = [] \<or> g = [] then obtenerTodas_m m
      else filter_a (\<lambda>p. genero p = g) (this_peliculas m) m)"

definition buscarYFiltrar_m :: "string \<Rightarrow> string \<Rightarrow> memoria \<Rightarrow> nat \<times> memoria" where
  "buscarYFiltrar_m termino g m =
     (let (resultado, m1) = obtenerTodas_m m;
          (resultado, m2) = (if g \<noteq> [] \<and> g \<noteq> []
                             then filter_a (\<lambda>p. genero p = g) resultado m1
                             else (resultado, m1));
          (resultado, m3) = (if termino \<noteq> [] \<and> trim termino \<noteq> []
                             then (let terminoLower = toLowerCase termino
                                   in filter_a (coincide terminoLower) resultado m2)
                             else (resultado, m2))
      in (resultado, m3))"

definition obtenerRecientes_m :: "nat option \<Rightarrow> memoria \<Rightarrow> nat \<times> memoria" where
  "obtenerRecientes_m cantidad m =
     (let (c, m1) = spread_a (this_peliculas m) m;
          (c, m2) = sort_a cmp_recientes c m1
      in slice_a (case cantidad of None \<Rightarrow> 5 | Some n \<Rightarrow> n) c m2)"

definition ordenarPorCalificacion_m :: "bool option \<Rightarrow> memoria \<Rightarrow> nat \<times> memoria" where
  "ordenarPorCalificacion_m descendente m =
     (let (c, m1) = spread_a (this_peliculas m) m
      in sort_a (cmp_calificacion (case descendente of None \<Rightarrow> True | Some d \<Rightarrow> d)) c m1)"

definition ordenarPorAno_m :: "bool option \<Rightarrow> memoria \<Rightarrow> nat \<times> memoria" where
  "ordenarPorAno_m descendente m =
     (let (c, m1) = spread_a (this_peliculas m) m
      in sort_a (cmp_ano (case descendente of None \<Rightarrow> True | Some d \<Rightarrow> d)) c m1)"

text \<open>
  A call that took the memory from \<open>m\<close> to \<open>m'\<close> had no effect on the manager: its
  field holds the same address, the store is the same, and every array that was there
  before the call, the one of the manager among them, has the content it had.
\<close>

definition sin_efecto :: "memoria \<Rightarrow> memoria \<Rightarrow> bool" where
  "sin_efecto m m' =
     (this_peliculas m' = this_peliculas m \<and> localStorage_m m' = localStorage_m m
      \<and> take (length (arreglos m)) (arreglos m') = arreglos m)"

text \<open>
  A query that took the memory from \<open>m\<close> to the memory of \<open>res\<close> and returned the
  address of \<open>res\<close> is pure and returns \<open>xs\<close>: the call had no effect on the manager,
  and the address is the one of an array that was not there before the call and that
  holds \<open>xs\<close>.
\<close>

definition devuelve :: "memoria \<Rightarrow> nat \<times> memoria \<Rightarrow> pelicula list \<Rightarrow> bool" where
  "devuelve m res xs =
     (sin_efecto m (snd res) \<and> length (arreglos m) \<le> fst res
      \<and> fst res < length (arreglos (snd res)) \<and> arreglos (snd res) ! fst res = xs)"

subsection \<open>Conditions on a catalogue\<close>

text \<open>
  Every film of a list passes \<open>validar\<close> in the year \<open>anio\<close>; every film that the
  store holds does; a call is made in a year up to \<open>anio\<close>.
\<close>

definition todas_validas :: "(string \<Rightarrow> bool) \<Rightarrow> int \<Rightarrow> pelicula list \<Rightarrow> bool" where
  "todas_validas URL anio ps = list_all (\<lambda>p. valido (validar URL anio p)) ps"

definition almacen_valido :: "(string \<Rightarrow> bool) \<Rightarrow> int \<Rightarrow> almacen \<Rightarrow> bool" where
  "almacen_valido URL anio a =
     (case valor a of Some (Texto_JSON xs) \<Rightarrow> todas_validas URL anio xs | _ \<Rightarrow> True)"

fun hasta :: "int \<Rightarrow> llamada \<Rightarrow> bool" where
  "hasta anio (Agregar a p) = (a \<le> anio)"
| "hasta anio (Actualizar a r i d) = (a \<le> anio)"
| "hasta anio (Eliminar i) = True"

definition inv_validas :: "(string \<Rightarrow> bool) \<Rightarrow> int \<Rightarrow> estado \<Rightarrow> bool" where
  "inv_validas URL anio s =
     (todas_validas URL anio (peliculas s) \<and> almacen_valido URL anio (localStorage s))"

subsection \<open>Sample values\<close>

definition lectura_muestra :: lectura where
  "lectura_muestra =
     \<lparr> date_now = ''1767225600000'', math_random = ''k3j9x0q2a'', new_date = 1767225600000 \<rparr>"

definition pelicula_muestra :: pelicula where
  "pelicula_muestra =
     Pelicula lectura_muestra ''Alien'' ''Terror'' ''Ridley Scott'' (Valor 1979)
       (Valor (85 / 10)) ''La tripulacion de una nave responde a una llamada.''
       ''https://example.org/alien.jpg'' None"

definition lecturas_muestra :: "nat \<Rightarrow> lectura" where
  "lecturas_muestra k =
     \<lparr> date_now = ''1767225600000'', math_random = ''k3j9x0q2'' @ [char_of (97 + k)],
       new_date = 1767225600000 \<rparr>"

definition datos_muestra :: datos where
  "datos_muestra =
     \<lparr> titulo_d = ''Blade Runner'', genero_d = ''Ciencia'', director_d = ''Ridley Scott'',
       ano_d = Valor 1982, calificacion_d = Valor (81 / 10),
       descripcion_d = ''Un agente persigue a unos replicantes fugitivos.'',
       imagen_d = ''https://example.org/blade.jpg'' \<rparr>"

text \<open>A store that holds \<open>v\<close> and accepts every write.\<close>

definition almacen_muestra :: "texto option \<Rightarrow> almacen" where
  "almacen_muestra v = \<lparr> valor = v, admite = (\<lambda>t. True) \<rparr>"

definition estado_muestra :: estado where
  "estado_muestra =
     \<lparr> peliculas = [pelicula_muestra], localStorage = almacen_muestra None \<rparr>"

text \<open>
  A second film, built with the identifier of the sample film as the explicit last
  argument of the constructor, and the catalogue of a manager that loaded a store holding
  the empty array and was then asked to add the one and the other.
\<close>

definition pelicula_gemela :: pelicula where
  "pelicula_gemela =
     Pelicula (lecturas_muestra 1) ''Aliens'' ''Terror'' ''James Cameron'' (Valor 1986)
       (Valor (84 / 10)) ''Una patrulla vuelve al planeta de la primera nave.''
       ''https://example.org/aliens.jpg'' (Some (ident pelicula_muestra))"

definition estado_duplicado :: estado where
  "estado_duplicado =
     llamadas URL_muestra [Agregar 2026 pelicula_muestra, Agregar 2026 pelicula_gemela]
       \<lparr> peliculas = [], localStorage = almacen_muestra (Some (Texto_JSON [])) \<rparr>"

text \<open>
  Readings one millisecond apart, where \<open>lecturas_muestra\<close> has all its readings in one
  millisecond.
\<close>

definition lecturas_sucesivas :: "nat \<Rightarrow> lectura" where
  "lecturas_sucesivas k =
     \<lparr> date_now = ''1767225600000'', math_random = ''k3j9x0q2'' @ [char_of (97 + k)],
       new_date = 1767225600000 + int k \<rparr>"

text \<open>
  The sample film with a title of one character, as an object kept in the store, and a
  sequence of calls on the sample catalogue.
\<close>

definition pelicula_corta :: pelicula where
  "pelicula_corta = pelicula_muestra\<lparr> titulo := ''A'' \<rparr>"

definition llamadas_muestra :: "llamada list" where
  "llamadas_muestra =
     [Agregar 2026 pelicula_gemela,
      Actualizar 2025 (lecturas_muestra 3) (ident pelicula_muestra) datos_muestra,
      Eliminar ''movie_0'',
      Agregar 2026 pelicula_corta]"

text \<open>
  A memory whose only array is the one of the manager, with the first two films of the
  built-in catalogue built one millisecond apart.
\<close>

definition memoria_muestra :: memoria where
  "memoria_muestra =
     \<lparr> arreglos = [take 2 (peliculasIniciales lecturas_sucesivas)], this_peliculas = 0,
       localStorage_m = almacen_muestra None \<rparr>"

text \<open>
  A catalogue of three films with three identifiers, the sample film in the middle, the
  one before it built a second earlier and the one after it a second later.
\<close>

definition pelicula_anterior :: pelicula where
  "pelicula_anterior =
     Pelicula \<lparr> date_now = ''1767225599000'', math_random = ''p7w1m4c8z'',
                new_date = 1767225599000 \<rparr>
       ''Brazil'' ''Comedia'' ''Terry Gilliam'' (Valor 1985) (Valor (79 / 10))
       ''Un funcionario persigue a la mujer de sus fantasias.''
       ''https://example.org/brazil.jpg'' None"

definition pelicula_posterior :: pelicula where
  "pelicula_posterior =
     Pelicula \<lparr> date_now = ''1767225601000'', math_random = ''t5b2h9v3e'',
                new_date = 1767225601000 \<rparr>
       ''Charada'' ''Comedia'' ''Stanley Donen'' (Valor 1963) (Valor (79 / 10))
       ''Una viuda es perseguida por tres hombres en Paris.''
       ''https://example.org/charada.jpg'' None"

definition estado_tres :: estado where
  "estado_tres =
     \<lparr> peliculas = [pelicula_anterior, pelicula_muestra, pelicula_posterior],
       localStorage = almacen_muestra None \<rparr>"

section \<open>Properties\<close>

subsection \<open>Validation\<close>

lemma trim_Nil: "trim [] = []" by (simp add: trim_def)

lemma violadas_todas_ok: "(\<forall>r \<in> set rs. fst r p) \<Longrightarrow> violadas rs p = []"
  by (induction rs p rule: violadas.induct) auto

lemma violadas_una:
  "i < length rs \<Longrightarrow> \<not> fst (rs ! i) p \<Longrightarrow> (\<forall>j < length rs. j \<noteq> i \<longrightarrow> fst (rs ! j) p)
   \<Longrightarrow> violadas rs p = [snd (rs ! i)]"
proof (induction rs arbitrary: i)
  case Nil
  then show ?case by simp
next
  case (Cons r rs)
  obtain ok m where r: "r = (ok, m)" by (cases r)
  show ?case
  proof (cases i)
    case 0
    have "\<forall>q \<in> set rs. fst q p"
    proof
      fix q assume "q \<in> set rs"
      then obtain k where k: "k < length rs" "rs ! k = q" by (auto simp: in_set_conv_nth)
      with Cons.prems(3) [rule_format, of "Suc k"] 0 show "fst q p" by simp
    qed
    then have "violadas rs p = []" by (rule violadas_todas_ok)
    with Cons.prems(2) 0 r show ?thesis by simp
  next
    case (Suc k)
    have okp: "ok p" using Cons.prems(3) [rule_format, of 0] Suc r by simp
    have "violadas rs p = [snd (rs ! k)]"
    proof (rule Cons.IH)
      show "k < length rs" using Cons.prems(1) Suc by simp
      show "\<not> fst (rs ! k) p" using Cons.prems(2) Suc by simp
      show "\<forall>j<length rs. j \<noteq> k \<longrightarrow> fst (rs ! j) p"
      proof (intro allI impI)
        fix j assume "j < length rs" "j \<noteq> k"
        with Cons.prems(3) [rule_format, of "Suc j"] Suc show "fst (rs ! j) p" by simp
      qed
    qed
    with okp Suc r show ?thesis by simp
  qed
qed

lemma empuja: "(if c then e @ [m] else e) = e @ (if \<not> c then [] else [m])"
  by simp

lemma violadas_Cons: "violadas ((ok, m) # rs) p = (if ok p then [] else [m]) @ violadas rs p"
  by simp

lemma cumple_titulo: "(\<not> (titulo p = [] \<or> length (trim (titulo p)) < 2)) = regla_titulo p"
  by (auto simp: regla_titulo_def trim_Nil)

lemma cumple_director: "(\<not> (director p = [] \<or> length (trim (director p)) < 2)) = regla_director p"
  by (auto simp: regla_director_def trim_Nil)

lemma cumple_descripcion:
  "(\<not> (descripcion p = [] \<or> length (trim (descripcion p)) < 10)) = regla_descripcion p"
  by (auto simp: regla_descripcion_def trim_Nil)

lemma cumple_ano:
  "(\<not> (falso (ano p) \<or> menor (ano p) (Valor 1900) \<or> mayor (ano p) (Valor (anio + 5))))
     = regla_ano anio p"
  by (cases "ano p") (auto simp: regla_ano_def)

lemma cumple_calificacion:
  "(\<not> (falso (calificacion p) \<or> menor (calificacion p) (Valor 1)
        \<or> mayor (calificacion p) (Valor 10))) = regla_calificacion p"
  by (cases "calificacion p") (auto simp: regla_calificacion_def)

lemma cumple_genero: "(\<not> genero p = []) = regla_genero p"
  by (simp add: regla_genero_def)

lemma cumple_imagen:
  "\<not> URL [] \<Longrightarrow> (\<not> (imagen p = [] \<or> \<not> validarURL URL (imagen p))) = regla_imagen URL p"
  by (auto simp: regla_imagen_def validarURL_def)

lemma validar_errores:
  assumes "\<not> URL []"
  shows "errores (validar URL anio p) = violadas (reglas URL anio) p"
  unfolding validar_def reglas_def
  by (simp only: empuja Let_def cumple_titulo cumple_director cumple_descripcion cumple_ano
        cumple_calificacion cumple_genero cumple_imagen [of URL, OF assms] violadas_Cons
        violadas.simps(1) validacion.simps append_Nil append_Nil2 append_assoc)

lemma validar_valido: "valido (validar URL anio p) = (errores (validar URL anio p) = [])"
  unfolding validar_def
  by (simp only: empuja Let_def validacion.simps length_0_conv)

text \<open>
  C3. Provided the platform's parser rejects the empty text, \<open>validar\<close> returns the
  messages of exactly the rules that the film violates, in the order in which the rules
  are declared (title, genre, director, year, rating, description, image), whatever the
  other rules say; \<open>valido\<close> holds exactly when that list is empty; a film that meets
  every rule gets no message, and a film that violates one rule alone gets the message
  of that rule and no other.
\<close>

theorem validar_reglas:
  assumes "\<not> URL []"
  shows "errores (validar URL anio p) = violadas (reglas URL anio) p
    \<and> (valido (validar URL anio p) \<longleftrightarrow> errores (validar URL anio p) = [])
    \<and> ((\<forall>r \<in> set (reglas URL anio). fst r p) \<longrightarrow> errores (validar URL anio p) = [])
    \<and> (\<forall>i < length (reglas URL anio).
         \<not> fst (reglas URL anio ! i) p
         \<and> (\<forall>j < length (reglas URL anio). j \<noteq> i \<longrightarrow> fst (reglas URL anio ! j) p)
         \<longrightarrow> errores (validar URL anio p) = [snd (reglas URL anio ! i)])"
proof -
  have e: "errores (validar URL anio p) = violadas (reglas URL anio) p"
    using assms by (rule validar_errores)
  have v: "valido (validar URL anio p) \<longleftrightarrow> errores (validar URL anio p) = []"
    by (rule validar_valido)
  have a: "(\<forall>r \<in> set (reglas URL anio). fst r p) \<longrightarrow> errores (validar URL anio p) = []"
    unfolding e by (simp add: violadas_todas_ok)
  have u: "\<forall>i < length (reglas URL anio).
         \<not> fst (reglas URL anio ! i) p
         \<and> (\<forall>j < length (reglas URL anio). j \<noteq> i \<longrightarrow> fst (reglas URL anio ! j) p)
         \<longrightarrow> errores (validar URL anio p) = [snd (reglas URL anio ! i)]"
    unfolding e by (intro allI impI) (simp add: violadas_una)
  from e v a u show ?thesis by blast
qed

lemma muestra_vacia: "\<not> URL_muestra []" by (simp add: URL_muestra_def)

lemma muestra_reglas:
  "regla_titulo pelicula_muestra" "regla_genero pelicula_muestra" "regla_director pelicula_muestra"
  "regla_ano 2026 pelicula_muestra" "regla_calificacion pelicula_muestra"
  "regla_descripcion pelicula_muestra" "regla_imagen URL_muestra pelicula_muestra"
  by (simp_all add: pelicula_muestra_def Pelicula_def regla_titulo_def regla_genero_def
      regla_director_def regla_ano_def regla_calificacion_def regla_descripcion_def
      regla_imagen_def URL_muestra_def trim_def espacio_def)

text \<open>
  The sample film meets the seven rules in 2026; with the title \<^verbatim>\<open>A\<close> it violates the
  first rule alone.
\<close>

theorem validar_reglas_witness:
  "\<not> URL_muestra []
   \<and> \<not> regla_titulo (pelicula_muestra\<lparr> titulo := ''A'' \<rparr>)
   \<and> regla_genero (pelicula_muestra\<lparr> titulo := ''A'' \<rparr>)
   \<and> regla_director (pelicula_muestra\<lparr> titulo := ''A'' \<rparr>)
   \<and> regla_ano 2026 (pelicula_muestra\<lparr> titulo := ''A'' \<rparr>)
   \<and> regla_calificacion (pelicula_muestra\<lparr> titulo := ''A'' \<rparr>)
   \<and> regla_descripcion (pelicula_muestra\<lparr> titulo := ''A'' \<rparr>)
   \<and> regla_imagen URL_muestra (pelicula_muestra\<lparr> titulo := ''A'' \<rparr>)
   \<and> errores (validar URL_muestra 2026 (pelicula_muestra\<lparr> titulo := ''A'' \<rparr>)) = [msg_titulo]
   \<and> \<not> valido (validar URL_muestra 2026 (pelicula_muestra\<lparr> titulo := ''A'' \<rparr>))
   \<and> errores (validar URL_muestra 2026 pelicula_muestra) = []"
proof -
  let ?p = "pelicula_muestra\<lparr> titulo := ''A'' \<rparr>"
  have r: "\<not> regla_titulo ?p" "regla_genero ?p" "regla_director ?p" "regla_ano 2026 ?p"
    "regla_calificacion ?p" "regla_descripcion ?p" "regla_imagen URL_muestra ?p"
    using muestra_reglas
    by (simp_all add: regla_titulo_def regla_genero_def regla_director_def regla_ano_def
        regla_calificacion_def regla_descripcion_def regla_imagen_def trim_def espacio_def)
  have otras: "\<forall>j < length (reglas URL_muestra 2026). j \<noteq> 0
      \<longrightarrow> fst (reglas URL_muestra 2026 ! j) ?p"
    using r by (simp add: reglas_def nth_Cons split: nat.split)
  have esta: "\<not> fst (reglas URL_muestra 2026 ! 0) ?p"
    using r by (simp add: reglas_def)
  have todas: "\<forall>r \<in> set (reglas URL_muestra 2026). fst r pelicula_muestra"
    using muestra_reglas by (simp add: reglas_def)
  note t = validar_reglas [of URL_muestra 2026 ?p, OF muestra_vacia]
  have l: "0 < length (reglas URL_muestra 2026)"
    by (simp add: reglas_def)
  from t l esta otras
  have "errores (validar URL_muestra 2026 ?p) = [snd (reglas URL_muestra 2026 ! 0)]"
    by blast
  then have e: "errores (validar URL_muestra 2026 ?p) = [msg_titulo]"
    by (simp add: reglas_def)
  have v: "\<not> valido (validar URL_muestra 2026 ?p)"
    using t e by simp
  have b: "errores (validar URL_muestra 2026 pelicula_muestra) = []"
    using validar_reglas [of URL_muestra 2026 pelicula_muestra, OF muestra_vacia] todas
    by blast
  from muestra_vacia r e v b show ?thesis by blast
qed

subsection \<open>Updating\<close>

lemma findIndex_ge: "- 1 \<le> findIndex P xs"
  by (induction xs) (auto simp: Let_def)

lemma findIndex_none: "(findIndex P xs = - 1) = (\<forall>x \<in> set xs. \<not> P x)"
proof (induction xs)
  case Nil
  then show ?case by simp
next
  case (Cons x xs)
  have "- 1 \<le> findIndex P xs" by (rule findIndex_ge)
  with Cons show ?case by (auto simp: Let_def)
qed

lemma findIndex_first:
  assumes "findIndex P xs \<noteq> - 1"
  shows "nat (findIndex P xs) < length xs \<and> P (xs ! nat (findIndex P xs))
    \<and> (\<forall>j < nat (findIndex P xs). \<not> P (xs ! j))"
  using assms
proof (induction xs)
  case Nil
  then show ?case by simp
next
  case (Cons x xs)
  show ?case
  proof (cases "P x")
    case True
    then show ?thesis by simp
  next
    case False
    with Cons.prems have ne: "findIndex P xs \<noteq> - 1" by (auto simp: Let_def)
    have ge: "0 \<le> findIndex P xs" using findIndex_ge [of P xs] ne by linarith
    have eq: "nat (findIndex P (x # xs)) = Suc (nat (findIndex P xs))"
      using False ne ge by (simp add: Let_def nat_add_distrib)
    from Cons.IH [OF ne] False show ?thesis
      unfolding eq by (auto simp: nth_Cons split: nat.split)
  qed
qed

lemma find_first:
  "n < length xs \<Longrightarrow> P (xs ! n) \<Longrightarrow> (\<forall>j < n. \<not> P (xs ! j)) \<Longrightarrow> find P xs = Some (xs ! n)"
proof (induction xs arbitrary: n)
  case Nil
  then show ?case by simp
next
  case (Cons x xs)
  show ?case
  proof (cases n)
    case 0
    with Cons.prems show ?thesis by simp
  next
    case (Suc k)
    have "\<not> P x" using Cons.prems(3) Suc by (auto dest: spec [of _ 0])
    moreover have "find P xs = Some (xs ! k)"
    proof (rule Cons.IH)
      show "k < length xs" using Cons.prems(1) Suc by simp
      show "P (xs ! k)" using Cons.prems(2) Suc by simp
      show "\<forall>j<k. \<not> P (xs ! j)"
      proof (intro allI impI)
        fix j assume "j < k"
        with Cons.prems(3) [rule_format, of "Suc j"] Suc show "\<not> P (xs ! j)" by simp
      qed
    qed
    ultimately show ?thesis using Suc by simp
  qed
qed

lemma toJSON_id: "toJSON p = p"
  by (simp add: toJSON_def)

lemma map_toJSON: "map toJSON ps = ps"
  by (induction ps) (simp_all add: toJSON_id)

lemma actualizar_ausente:
  "\<forall>p \<in> set (peliculas s). ident p \<noteq> i
   \<Longrightarrow> actualizar URL anio r i d s = (Retorna (fallo msg_no_encontrada), s)"
  using findIndex_none [of "\<lambda>p. ident p = i" "peliculas s"]
  by (simp add: actualizar_def)

text \<open>
  C10. When no film of the catalogue carries the identifier, an update returns the
  failure "not found" and leaves the catalogue and the store as they were, and it does
  so whatever the payload, the reading of the constructor, the year and the parser of
  the platform are: it builds and validates no film.
\<close>

theorem actualizar_no_encontrada:
  assumes "\<forall>p \<in> set (peliculas s). ident p \<noteq> i"
  shows "actualizar URL anio r i d s
           = (Retorna \<lparr> exito = False, mensaje = msg_no_encontrada, pelicula_res = None \<rparr>, s)
    \<and> actualizar URL anio r i d s = actualizar URL' anio' r' i d' s"
  using assms by (simp add: actualizar_ausente fallo_def)

text \<open>
  The sample catalogue has no film \<^verbatim>\<open>movie_0\<close>; the payload of empty fields would fail
  the validation.
\<close>

theorem actualizar_no_encontrada_witness:
  "ident pelicula_muestra \<noteq> ''movie_0''
   \<and> \<not> valido (validar URL_muestra 2026
         (Pelicula lectura_muestra [] [] [] NaN NaN [] [] (Some ''movie_0'')))
   \<and> actualizar URL_muestra 2026 lectura_muestra ''movie_0''
        \<lparr> titulo_d = [], genero_d = [], director_d = [], ano_d = NaN, calificacion_d = NaN,
          descripcion_d = [], imagen_d = [] \<rparr> estado_muestra
      = (Retorna \<lparr> exito = False, mensaje = msg_no_encontrada, pelicula_res = None \<rparr>,
         estado_muestra)"
proof -
  have a: "\<forall>p \<in> set (peliculas estado_muestra). ident p \<noteq> ''movie_0''"
    by (simp add: estado_muestra_def pelicula_muestra_def Pelicula_def generarID_def lectura_muestra_def)
  have b: "ident pelicula_muestra \<noteq> ''movie_0''"
    by (simp add: pelicula_muestra_def Pelicula_def generarID_def lectura_muestra_def)
  have c: "\<not> valido (validar URL_muestra 2026
         (Pelicula lectura_muestra [] [] [] NaN NaN [] [] (Some ''movie_0'')))"
    by (simp add: validar_def Pelicula_def)
  from actualizar_no_encontrada [OF a] b c show ?thesis by simp
qed


lemma guardar_admite:
  "admite (localStorage s) (Texto_JSON (peliculas s))
   \<Longrightarrow> guardarPeliculas s
       = (Retorna (), s\<lparr> localStorage := (localStorage s)\<lparr> valor := Some (Texto_JSON (peliculas s)) \<rparr> \<rparr>)"
  by (simp add: guardarPeliculas_def JSON_stringify_def map_toJSON)

lemma guardar_rechaza:
  "\<not> admite (localStorage s) (Texto_JSON (peliculas s))
   \<Longrightarrow> guardarPeliculas s = (Lanza msg_guardar, s)"
  by (simp add: guardarPeliculas_def JSON_stringify_def map_toJSON)

lemma guardar_peliculas: "peliculas (snd (guardarPeliculas s)) = peliculas s"
  by (simp add: guardarPeliculas_def Let_def)

lemma find_update_first:
  assumes "n < length xs" "P q" "\<forall>j < n. \<not> P (xs ! j)"
  shows "find P (xs[n := q]) = Some q"
proof -
  have "find P (xs[n := q]) = Some (xs[n := q] ! n)"
  proof (rule find_first)
    show "n < length (xs[n := q])" using assms(1) by simp
    show "P (xs[n := q] ! n)" using assms(1,2) by simp
    show "\<forall>j<n. \<not> P (xs[n := q] ! j)" using assms(3) by simp
  qed
  with assms(1) show ?thesis by simp
qed


lemma actualizar_presente:
  assumes "\<exists>p \<in> set (peliculas s). ident p = i"
  shows "actualizar URL anio r i d s =
     (let n = nat (findIndex (\<lambda>p. ident p = i) (peliculas s));
          q = (Pelicula r (titulo_d d) (genero_d d) (director_d d) (ano_d d)
                 (calificacion_d d) (descripcion_d d) (imagen_d d) (Some i))
              \<lparr> fechaCreacion := fechaCreacion (peliculas s ! n) \<rparr>
      in if \<not> valido (validar URL anio q)
         then (Retorna (fallo (join [CHR 0x0A] (errores (validar URL anio q)))), s)
         else (case guardarPeliculas (s\<lparr> peliculas := (peliculas s)[n := q] \<rparr>) of
                 (Lanza e, s2) \<Rightarrow> (Lanza e, s2)
               | (Retorna u, s2) \<Rightarrow>
                   (Retorna \<lparr> exito = True, mensaje = msg_actualizada,
                              pelicula_res = None \<rparr>, s2)))"
proof -
  have "findIndex (\<lambda>p. ident p = i) (peliculas s) \<noteq> - 1"
    using assms(1) by (simp add: findIndex_none)
  then show ?thesis
    by (simp add: actualizar_def Let_def)
qed

lemma Pelicula_campos:
  "i \<noteq> [] \<Longrightarrow> ident (Pelicula r t g dr a c ds im (Some i)) = i"
  "titulo (Pelicula r t g dr a c ds im io) = t"
  "genero (Pelicula r t g dr a c ds im io) = g"
  "director (Pelicula r t g dr a c ds im io) = dr"
  "ano (Pelicula r t g dr a c ds im io) = a"
  "calificacion (Pelicula r t g dr a c ds im io) = c"
  "descripcion (Pelicula r t g dr a c ds im io) = ds"
  "imagen (Pelicula r t g dr a c ds im io) = im"
  "fechaCreacion (Pelicula r t g dr a c ds im io) = new_date r"
  by (simp_all add: Pelicula_def)

lemma caso_guardar:
  "(case guardarPeliculas s1 of (Lanza e, s2) \<Rightarrow> (Lanza e, s2)
      | (Retorna u, s2) \<Rightarrow> (Retorna x, s2))
   = (if admite (localStorage s1) (Texto_JSON (peliculas s1))
      then (Retorna x, s1\<lparr> localStorage := (localStorage s1)
                              \<lparr> valor := Some (Texto_JSON (peliculas s1)) \<rparr> \<rparr>)
      else (Lanza msg_guardar, s1))"
  by (simp add: guardar_admite guardar_rechaza)

text \<open>
  C4. An update of an identifier that no film carries returns the failure "not found"
  and leaves the manager as it was. An update of an identifier that is present (and not
  empty, as every identifier that the constructor assigns) builds a film \<open>q\<close> with that
  identifier, with the fields of the payload and with the creation date of \<open>vieja\<close>, the
  first film that carries the identifier, at the position \<open>n\<close>. When \<open>q\<close> fails the
  validation, the update returns the failure with the joined messages and leaves the
  manager as it was. When it passes, \<open>q\<close> stands at the position \<open>n\<close> in place of
  \<open>vieja\<close>, every other position is as before, and \<open>obtenerPorId\<close> returns \<open>q\<close>; the
  store then holds the new catalogue and the update returns success, or the store rejected
  the write, kept its text, and the update throws.
\<close>

theorem actualizar_existente:
  "((\<forall>p \<in> set (peliculas s). ident p \<noteq> i) \<longrightarrow>
      actualizar URL anio r i d s
        = (Retorna \<lparr> exito = False, mensaje = msg_no_encontrada, pelicula_res = None \<rparr>, s))
   \<and> ((\<exists>p \<in> set (peliculas s). ident p = i) \<and> i \<noteq> [] \<longrightarrow>
      (\<exists>n vieja q.
         n < length (peliculas s) \<and> peliculas s ! n = vieja
         \<and> obtenerPorId i (peliculas s) = Some vieja
         \<and> ident q = i \<and> fechaCreacion q = fechaCreacion vieja
         \<and> titulo q = titulo_d d \<and> genero q = genero_d d \<and> director q = director_d d
         \<and> ano q = ano_d d \<and> calificacion q = calificacion_d d
         \<and> descripcion q = descripcion_d d \<and> imagen q = imagen_d d
         \<and> (if valido (validar URL anio q)
            then peliculas (snd (actualizar URL anio r i d s)) = (peliculas s)[n := q]
              \<and> obtenerPorId i (peliculas (snd (actualizar URL anio r i d s))) = Some q
              \<and> (if admite (localStorage s) (Texto_JSON ((peliculas s)[n := q]))
                 then fst (actualizar URL anio r i d s)
                        = Retorna \<lparr> exito = True, mensaje = msg_actualizada,
                                    pelicula_res = None \<rparr>
                   \<and> localStorage (snd (actualizar URL anio r i d s))
                        = (localStorage s)\<lparr> valor := Some (Texto_JSON ((peliculas s)[n := q])) \<rparr>
                 else fst (actualizar URL anio r i d s) = Lanza msg_guardar
                   \<and> localStorage (snd (actualizar URL anio r i d s)) = localStorage s)
            else actualizar URL anio r i d s
                   = (Retorna \<lparr> exito = False,
                                mensaje = join [CHR 0x0A] (errores (validar URL anio q)),
                                pelicula_res = None \<rparr>, s))))"
proof (intro conjI impI)
  assume "\<forall>p \<in> set (peliculas s). ident p \<noteq> i"
  then show "actualizar URL anio r i d s
        = (Retorna \<lparr> exito = False, mensaje = msg_no_encontrada, pelicula_res = None \<rparr>, s)"
    by (simp add: actualizar_ausente fallo_def)
next
  assume h: "(\<exists>p \<in> set (peliculas s). ident p = i) \<and> i \<noteq> []"
  define n where "n = nat (findIndex (\<lambda>p. ident p = i) (peliculas s))"
  define q where "q = (Pelicula r (titulo_d d) (genero_d d) (director_d d) (ano_d d)
                 (calificacion_d d) (descripcion_d d) (imagen_d d) (Some i))
              \<lparr> fechaCreacion := fechaCreacion (peliculas s ! n) \<rparr>"
  have ne: "findIndex (\<lambda>p. ident p = i) (peliculas s) \<noteq> - 1"
    using h by (simp add: findIndex_none)
  from findIndex_first [OF ne]
  have n: "n < length (peliculas s)" "ident (peliculas s ! n) = i"
    "\<forall>j < n. ident (peliculas s ! j) \<noteq> i"
    by (simp_all add: n_def)
  have antes: "obtenerPorId i (peliculas s) = Some (peliculas s ! n)"
    unfolding obtenerPorId_def using n by (intro find_first) simp_all
  have qi: "ident q = i" using h by (simp add: q_def Pelicula_campos)
  have despues: "obtenerPorId i ((peliculas s)[n := q]) = Some q"
    unfolding obtenerPorId_def using n qi by (intro find_update_first) simp_all
  have a: "actualizar URL anio r i d s =
     (if \<not> valido (validar URL anio q)
      then (Retorna (fallo (join [CHR 0x0A] (errores (validar URL anio q)))), s)
      else (if admite (localStorage s) (Texto_JSON ((peliculas s)[n := q]))
            then (Retorna \<lparr> exito = True, mensaje = msg_actualizada, pelicula_res = None \<rparr>,
                  \<lparr> peliculas = (peliculas s)[n := q],
                    localStorage = (localStorage s)
                      \<lparr> valor := Some (Texto_JSON ((peliculas s)[n := q])) \<rparr> \<rparr>)
            else (Lanza msg_guardar, s\<lparr> peliculas := (peliculas s)[n := q] \<rparr>)))"
    using h unfolding actualizar_presente [of s i, OF conjunct1 [OF h]] caso_guardar
    by (simp add: Let_def n_def [symmetric] q_def [symmetric])
  have campos: "fechaCreacion q = fechaCreacion (peliculas s ! n)"
    "titulo q = titulo_d d" "genero q = genero_d d" "director q = director_d d"
    "ano q = ano_d d" "calificacion q = calificacion_d d"
    "descripcion q = descripcion_d d" "imagen q = imagen_d d"
    by (simp_all add: q_def Pelicula_campos)
  have fin: "if valido (validar URL anio q)
            then peliculas (snd (actualizar URL anio r i d s)) = (peliculas s)[n := q]
              \<and> obtenerPorId i (peliculas (snd (actualizar URL anio r i d s))) = Some q
              \<and> (if admite (localStorage s) (Texto_JSON ((peliculas s)[n := q]))
                 then fst (actualizar URL anio r i d s)
                        = Retorna \<lparr> exito = True, mensaje = msg_actualizada,
                                    pelicula_res = None \<rparr>
                   \<and> localStorage (snd (actualizar URL anio r i d s))
                        = (localStorage s)\<lparr> valor := Some (Texto_JSON ((peliculas s)[n := q])) \<rparr>
                 else fst (actualizar URL anio r i d s) = Lanza msg_guardar
                   \<and> localStorage (snd (actualizar URL anio r i d s)) = localStorage s)
            else actualizar URL anio r i d s
                   = (Retorna \<lparr> exito = False,
                                mensaje = join [CHR 0x0A] (errores (validar URL anio q)),
                                pelicula_res = None \<rparr>, s)"
    unfolding a using despues by (simp add: fallo_def)
  from n(1) antes qi campos fin
  show "\<exists>n vieja q.
         n < length (peliculas s) \<and> peliculas s ! n = vieja
         \<and> obtenerPorId i (peliculas s) = Some vieja
         \<and> ident q = i \<and> fechaCreacion q = fechaCreacion vieja
         \<and> titulo q = titulo_d d \<and> genero q = genero_d d \<and> director q = director_d d
         \<and> ano q = ano_d d \<and> calificacion q = calificacion_d d
         \<and> descripcion q = descripcion_d d \<and> imagen q = imagen_d d
         \<and> (if valido (validar URL anio q)
            then peliculas (snd (actualizar URL anio r i d s)) = (peliculas s)[n := q]
              \<and> obtenerPorId i (peliculas (snd (actualizar URL anio r i d s))) = Some q
              \<and> (if admite (localStorage s) (Texto_JSON ((peliculas s)[n := q]))
                 then fst (actualizar URL anio r i d s)
                        = Retorna \<lparr> exito = True, mensaje = msg_actualizada,
                                    pelicula_res = None \<rparr>
                   \<and> localStorage (snd (actualizar URL anio r i d s))
                        = (localStorage s)\<lparr> valor := Some (Texto_JSON ((peliculas s)[n := q])) \<rparr>
                 else fst (actualizar URL anio r i d s) = Lanza msg_guardar
                   \<and> localStorage (snd (actualizar URL anio r i d s)) = localStorage s)
            else actualizar URL anio r i d s
                   = (Retorna \<lparr> exito = False,
                                mensaje = join [CHR 0x0A] (errores (validar URL anio q)),
                                pelicula_res = None \<rparr>, s))"
    by (intro exI [of _ n] exI [of _ "peliculas s ! n"] exI [of _ q]) simp
qed


lemma si_cierto: "(if a then b else c) \<Longrightarrow> a \<Longrightarrow> b"
  by simp

lemma muestra_ident: "ident pelicula_muestra = ''movie_1767225600000_k3j9x0q2a''"
  by (simp add: pelicula_muestra_def Pelicula_def generarID_def lectura_muestra_def)

lemma validar_concreta:
  "valido (validar URL_muestra 2026
     \<lparr> ident = i, titulo = ''Blade Runner'', genero = ''Ciencia'', director = ''Ridley Scott'',
       ano = Valor 1982, calificacion = Valor (81 / 10),
       descripcion = ''Un agente persigue a unos replicantes fugitivos.'',
       imagen = ''https://example.org/blade.jpg'', fechaCreacion = f \<rparr>)"
  unfolding validar_def
  by (simp only: empuja Let_def validacion.simps length_0_conv)
     (simp add: trim_def espacio_def validarURL_def URL_muestra_def)

lemma si_falso: "(if a then b else c) \<Longrightarrow> \<not> a \<Longrightarrow> c"
  by simp

lemma anterior_ident: "ident pelicula_anterior = ''movie_1767225599000_p7w1m4c8z''"
  by (simp add: pelicula_anterior_def Pelicula_def generarID_def)

lemma posterior_ident: "ident pelicula_posterior = ''movie_1767225601000_t5b2h9v3e''"
  by (simp add: pelicula_posterior_def Pelicula_def generarID_def)

lemma tres_posicion:
  assumes "n < length (peliculas estado_tres)"
    and "ident (peliculas estado_tres ! n) = ident pelicula_muestra"
  shows "n = 1"
proof -
  from assms(1) consider "n = 0" | "n = 1" | "n = 2"
    by (auto simp: estado_tres_def less_Suc_eq)
  then show ?thesis
  proof cases
    case 1
    with assms(2) show ?thesis
      by (simp add: estado_tres_def anterior_ident muestra_ident)
  next
    case 2
    then show ?thesis .
  next
    case 3
    with assms(2) show ?thesis
      by (simp add: estado_tres_def posterior_ident muestra_ident)
  qed
qed

lemma titulo_vacio_invalida: "titulo q = [] \<Longrightarrow> \<not> valido (validar URL anio q)"
  unfolding validar_def
  by (simp only: empuja Let_def validacion.simps length_0_conv) simp


text \<open>
  An update of the sample film in the middle of the catalogue of three films: the new
  film stands between the other two, with the creation date of the sample film. An update
  of the same film with an empty title leaves the manager as it was, and so does one of a
  film that is not there.
\<close>

theorem actualizar_existente_witness:
  "pelicula_muestra \<in> set (peliculas estado_tres) \<and> ident pelicula_muestra \<noteq> []
   \<and> peliculas (snd (actualizar URL_muestra 2026 (lecturas_muestra 3)
        (ident pelicula_muestra) datos_muestra estado_tres))
      = [pelicula_anterior,
         \<lparr> ident = ident pelicula_muestra, titulo = ''Blade Runner'', genero = ''Ciencia'',
           director = ''Ridley Scott'', ano = Valor 1982, calificacion = Valor (81 / 10),
           descripcion = ''Un agente persigue a unos replicantes fugitivos.'',
           imagen = ''https://example.org/blade.jpg'',
           fechaCreacion = fechaCreacion pelicula_muestra \<rparr>,
         pelicula_posterior]
   \<and> obtenerPorId (ident pelicula_muestra)
        (peliculas (snd (actualizar URL_muestra 2026 (lecturas_muestra 3)
           (ident pelicula_muestra) datos_muestra estado_tres)))
      = Some \<lparr> ident = ident pelicula_muestra, titulo = ''Blade Runner'', genero = ''Ciencia'',
               director = ''Ridley Scott'', ano = Valor 1982, calificacion = Valor (81 / 10),
               descripcion = ''Un agente persigue a unos replicantes fugitivos.'',
               imagen = ''https://example.org/blade.jpg'',
               fechaCreacion = fechaCreacion pelicula_muestra \<rparr>
   \<and> snd (actualizar URL_muestra 2026 (lecturas_muestra 3) (ident pelicula_muestra)
          (datos_muestra\<lparr> titulo_d := [] \<rparr>) estado_tres)
      = estado_tres
   \<and> actualizar URL_muestra 2026 (lecturas_muestra 3) ''movie_0'' datos_muestra estado_tres
      = (Retorna \<lparr> exito = False, mensaje = msg_no_encontrada, pelicula_res = None \<rparr>,
         estado_tres)"
proof -
  let ?i = "ident pelicula_muestra"
  let ?ps = "peliculas estado_tres"
  let ?Q = "\<lparr> ident = ?i, titulo = ''Blade Runner'', genero = ''Ciencia'',
               director = ''Ridley Scott'', ano = Valor 1982, calificacion = Valor (81 / 10),
               descripcion = ''Un agente persigue a unos replicantes fugitivos.'',
               imagen = ''https://example.org/blade.jpg'',
               fechaCreacion = fechaCreacion pelicula_muestra \<rparr>"
  let ?R = "actualizar URL_muestra 2026 (lecturas_muestra 3) ?i datos_muestra estado_tres"
  let ?d = "datos_muestra\<lparr> titulo_d := [] \<rparr>"
  let ?S = "actualizar URL_muestra 2026 (lecturas_muestra 3) ?i ?d estado_tres"
  have m: "pelicula_muestra \<in> set ?ps"
    by (simp add: estado_tres_def)
  have ne: "?i \<noteq> []" by (simp add: muestra_ident)
  have h: "(\<exists>p \<in> set ?ps. ident p = ?i) \<and> ?i \<noteq> []"
    using m ne by blast
  have antes: "obtenerPorId ?i ?ps = Some pelicula_muestra"
    by (simp add: obtenerPorId_def estado_tres_def anterior_ident muestra_ident)
  \<comment> \<open>the valid payload\<close>
  from actualizar_existente [of estado_tres ?i URL_muestra 2026 "lecturas_muestra 3"
      datos_muestra] h
  obtain n vieja q where
    n: "n < length ?ps" "?ps ! n = vieja" "obtenerPorId ?i ?ps = Some vieja"
    and q: "ident q = ?i" "fechaCreacion q = fechaCreacion vieja"
      "titulo q = titulo_d datos_muestra" "genero q = genero_d datos_muestra"
      "director q = director_d datos_muestra" "ano q = ano_d datos_muestra"
      "calificacion q = calificacion_d datos_muestra"
      "descripcion q = descripcion_d datos_muestra" "imagen q = imagen_d datos_muestra"
    and f: "if valido (validar URL_muestra 2026 q)
            then peliculas (snd ?R) = ?ps[n := q]
              \<and> obtenerPorId ?i (peliculas (snd ?R)) = Some q
              \<and> (if admite (localStorage estado_tres) (Texto_JSON (?ps[n := q]))
                 then fst ?R = Retorna \<lparr> exito = True, mensaje = msg_actualizada,
                                          pelicula_res = None \<rparr>
                   \<and> localStorage (snd ?R)
                        = (localStorage estado_tres)
                            \<lparr> valor := Some (Texto_JSON (?ps[n := q])) \<rparr>
                 else fst ?R = Lanza msg_guardar
                   \<and> localStorage (snd ?R) = localStorage estado_tres)
            else ?R = (Retorna \<lparr> exito = False,
                        mensaje = join [CHR 0x0A] (errores (validar URL_muestra 2026 q)),
                        pelicula_res = None \<rparr>, estado_tres)"
    by blast
  have v: "vieja = pelicula_muestra" using n(3) antes by simp
  have n1: "n = 1" using n(1,2) v by (intro tres_posicion) simp_all
  have qe: "q = ?Q"
    using q v by (intro pelicula.equality) (simp_all add: datos_muestra_def)
  have vq: "valido (validar URL_muestra 2026 q)"
    unfolding qe by (rule validar_concreta)
  from si_cierto [OF f vq]
  have "peliculas (snd ?R) = ?ps[n := q]" "obtenerPorId ?i (peliculas (snd ?R)) = Some q"
    by blast+
  then have uno: "peliculas (snd ?R) = [pelicula_anterior, ?Q, pelicula_posterior]"
    and dos: "obtenerPorId ?i (peliculas (snd ?R)) = Some ?Q"
    unfolding n1 qe by (simp_all add: estado_tres_def)
  \<comment> \<open>the payload with an empty title\<close>
  from actualizar_existente [of estado_tres ?i URL_muestra 2026 "lecturas_muestra 3" ?d] h
  obtain n' q' where
    t': "titulo q' = titulo_d ?d"
    and f': "if valido (validar URL_muestra 2026 q')
            then peliculas (snd ?S) = ?ps[n' := q']
              \<and> obtenerPorId ?i (peliculas (snd ?S)) = Some q'
              \<and> (if admite (localStorage estado_tres) (Texto_JSON (?ps[n' := q']))
                 then fst ?S = Retorna \<lparr> exito = True, mensaje = msg_actualizada,
                                          pelicula_res = None \<rparr>
                   \<and> localStorage (snd ?S)
                        = (localStorage estado_tres)
                            \<lparr> valor := Some (Texto_JSON (?ps[n' := q'])) \<rparr>
                 else fst ?S = Lanza msg_guardar
                   \<and> localStorage (snd ?S) = localStorage estado_tres)
            else ?S = (Retorna \<lparr> exito = False,
                        mensaje = join [CHR 0x0A] (errores (validar URL_muestra 2026 q')),
                        pelicula_res = None \<rparr>, estado_tres)"
    by blast
  have "\<not> valido (validar URL_muestra 2026 q')"
    using t' by (intro titulo_vacio_invalida) simp
  from si_falso [OF f' this] have tres: "snd ?S = estado_tres" by simp
  \<comment> \<open>an identifier that is not there\<close>
  have "\<forall>p \<in> set ?ps. ident p \<noteq> ''movie_0''"
    by (simp add: estado_tres_def muestra_ident anterior_ident posterior_ident)
  with actualizar_existente [of estado_tres "''movie_0''" URL_muestra 2026
      "lecturas_muestra 3" datos_muestra]
  have cuatro: "actualizar URL_muestra 2026 (lecturas_muestra 3) ''movie_0'' datos_muestra
       estado_tres
      = (Retorna \<lparr> exito = False, mensaje = msg_no_encontrada, pelicula_res = None \<rparr>,
         estado_tres)"
    by blast
  from m ne uno dos tres cuatro show ?thesis by blast
qed

subsection \<open>Deleting\<close>

lemma find_append_none: "\<forall>x \<in> set xs. \<not> P x \<Longrightarrow> find P (xs @ ys) = find P ys"
  by (induction xs) simp_all

lemma find_splice_first:
  assumes "n < length xs" "\<forall>j < length xs. j \<noteq> n \<longrightarrow> \<not> P (xs ! j)"
  shows "find P (splice1 n xs) = None"
proof -
  have "\<forall>x \<in> set (splice1 n xs). \<not> P x"
  proof
    fix x assume "x \<in> set (splice1 n xs)"
    then consider "x \<in> set (take n xs)" | "x \<in> set (drop (Suc n) xs)"
      by (auto simp: splice1_def)
    then show "\<not> P x"
    proof cases
      case 1
      then obtain j where "j < n" "xs ! j = x"
        using assms(1) by (auto simp: in_set_conv_nth)
      with assms show ?thesis by auto
    next
      case 2
      then obtain k where k: "k < length xs - Suc n" "drop (Suc n) xs ! k = x"
        by (auto simp: in_set_conv_nth)
      then have "Suc n + k < length xs" "xs ! (Suc n + k) = x"
        by simp_all
      then obtain j where "Suc n + j < length xs" "xs ! (Suc n + j) = x"
        by blast
      with assms(2) [rule_format, of "Suc n + j"] show ?thesis by auto
    qed
  qed
  then show ?thesis by (simp add: find_None_iff)
qed

lemma eliminar_ausente:
  "\<forall>p \<in> set (peliculas s). ident p \<noteq> i
   \<Longrightarrow> eliminar i s = (Retorna (fallo msg_no_encontrada), s)"
  using findIndex_none [of "\<lambda>p. ident p = i" "peliculas s"]
  by (simp add: eliminar_def)

lemma eliminar_presente:
  assumes "\<exists>p \<in> set (peliculas s). ident p = i"
  shows "eliminar i s =
     (let n = nat (findIndex (\<lambda>p. ident p = i) (peliculas s));
          ps = splice1 n (peliculas s)
      in if admite (localStorage s) (Texto_JSON ps)
         then (Retorna \<lparr> exito = True, mensaje = msg_eliminada, pelicula_res = None \<rparr>,
               \<lparr> peliculas = ps,
                 localStorage = (localStorage s)\<lparr> valor := Some (Texto_JSON ps) \<rparr> \<rparr>)
         else (Lanza msg_guardar, s\<lparr> peliculas := ps \<rparr>))"
proof -
  have "findIndex (\<lambda>p. ident p = i) (peliculas s) \<noteq> - 1"
    using assms by (simp add: findIndex_none)
  then show ?thesis
    unfolding eliminar_def Let_def caso_guardar by simp
qed

text \<open>
  C6. A deletion of an identifier that no film carries returns the failure "not found"
  and leaves the manager as it was. A deletion of an identifier that is present takes
  out the first film that carries it, at the position \<open>n\<close>: the catalogue is then the
  films before \<open>n\<close> followed by the films after \<open>n\<close>, in their order, and
  \<open>obtenerTodas\<close> has one film less. \<open>obtenerPorId\<close> then returns what it finds among
  the films after \<open>n\<close>: \<^verbatim>\<open>null\<close> when no film at another position carried the
  identifier. The store then holds the new catalogue and
  the deletion returns success, or the store rejected the write, kept its text, and the
  deletion throws.
\<close>

theorem eliminar_existente:
  "((\<forall>p \<in> set (peliculas s). ident p \<noteq> i) \<longrightarrow>
      eliminar i s
        = (Retorna \<lparr> exito = False, mensaje = msg_no_encontrada, pelicula_res = None \<rparr>, s))
   \<and> ((\<exists>p \<in> set (peliculas s). ident p = i) \<longrightarrow>
      (\<exists>n. n < length (peliculas s) \<and> ident (peliculas s ! n) = i
         \<and> (\<forall>j < n. ident (peliculas s ! j) \<noteq> i)
         \<and> peliculas (snd (eliminar i s))
             = take n (peliculas s) @ drop (Suc n) (peliculas s)
         \<and> Suc (length (obtenerTodas (peliculas (snd (eliminar i s)))))
             = length (obtenerTodas (peliculas s))
         \<and> obtenerPorId i (peliculas (snd (eliminar i s)))
             = obtenerPorId i (drop (Suc n) (peliculas s))
         \<and> ((\<forall>j < length (peliculas s). j \<noteq> n \<longrightarrow> ident (peliculas s ! j) \<noteq> i)
              \<longrightarrow> obtenerPorId i (peliculas (snd (eliminar i s))) = None)
         \<and> (if admite (localStorage s)
                  (Texto_JSON (take n (peliculas s) @ drop (Suc n) (peliculas s)))
            then fst (eliminar i s)
                   = Retorna \<lparr> exito = True, mensaje = msg_eliminada, pelicula_res = None \<rparr>
              \<and> localStorage (snd (eliminar i s))
                   = (localStorage s)
                       \<lparr> valor := Some (Texto_JSON
                                     (take n (peliculas s) @ drop (Suc n) (peliculas s))) \<rparr>
            else fst (eliminar i s) = Lanza msg_guardar
              \<and> localStorage (snd (eliminar i s)) = localStorage s)))"
proof (intro conjI impI)
  assume "\<forall>p \<in> set (peliculas s). ident p \<noteq> i"
  then show "eliminar i s
        = (Retorna \<lparr> exito = False, mensaje = msg_no_encontrada, pelicula_res = None \<rparr>, s)"
    by (simp add: eliminar_ausente fallo_def)
next
  assume h: "\<exists>p \<in> set (peliculas s). ident p = i"
  define n where "n = nat (findIndex (\<lambda>p. ident p = i) (peliculas s))"
  have ne: "findIndex (\<lambda>p. ident p = i) (peliculas s) \<noteq> - 1"
    using h by (simp add: findIndex_none)
  from findIndex_first [OF ne]
  have n: "n < length (peliculas s)" "ident (peliculas s ! n) = i"
    "\<forall>j < n. ident (peliculas s ! j) \<noteq> i"
    by (simp_all add: n_def)
  note e = eliminar_presente [OF h, unfolded Let_def, folded n_def]
  have ps: "peliculas (snd (eliminar i s)) = take n (peliculas s) @ drop (Suc n) (peliculas s)"
    unfolding e by (simp add: splice1_def)
  have len: "Suc (length (obtenerTodas (peliculas (snd (eliminar i s)))))
             = length (obtenerTodas (peliculas s))"
    unfolding ps obtenerTodas_def using n(1) by simp
  have unico: "(\<forall>j < length (peliculas s). j \<noteq> n \<longrightarrow> ident (peliculas s ! j) \<noteq> i)
              \<longrightarrow> obtenerPorId i (peliculas (snd (eliminar i s))) = None"
    unfolding ps obtenerPorId_def splice1_def [symmetric]
    using n(1) by (auto intro: find_splice_first)
  have al: "if admite (localStorage s)
                  (Texto_JSON (take n (peliculas s) @ drop (Suc n) (peliculas s)))
            then fst (eliminar i s)
                   = Retorna \<lparr> exito = True, mensaje = msg_eliminada, pelicula_res = None \<rparr>
              \<and> localStorage (snd (eliminar i s))
                   = (localStorage s)
                       \<lparr> valor := Some (Texto_JSON
                                     (take n (peliculas s) @ drop (Suc n) (peliculas s))) \<rparr>
            else fst (eliminar i s) = Lanza msg_guardar
              \<and> localStorage (snd (eliminar i s)) = localStorage s"
    unfolding e by (simp add: splice1_def)
  have "\<forall>x \<in> set (take n (peliculas s)). ident x \<noteq> i"
  proof
    fix x assume "x \<in> set (take n (peliculas s))"
    then obtain j where "j < n" "j < length (peliculas s)" "peliculas s ! j = x"
      by (auto simp: in_set_conv_nth)
    with n(3) show "ident x \<noteq> i" by auto
  qed
  then have resto: "obtenerPorId i (peliculas (snd (eliminar i s)))
             = obtenerPorId i (drop (Suc n) (peliculas s))"
    unfolding ps obtenerPorId_def by (simp add: find_append_none)
  from n ps len resto unico al
  show "\<exists>n. n < length (peliculas s) \<and> ident (peliculas s ! n) = i
         \<and> (\<forall>j < n. ident (peliculas s ! j) \<noteq> i)
         \<and> peliculas (snd (eliminar i s))
             = take n (peliculas s) @ drop (Suc n) (peliculas s)
         \<and> Suc (length (obtenerTodas (peliculas (snd (eliminar i s)))))
             = length (obtenerTodas (peliculas s))
         \<and> obtenerPorId i (peliculas (snd (eliminar i s)))
             = obtenerPorId i (drop (Suc n) (peliculas s))
         \<and> ((\<forall>j < length (peliculas s). j \<noteq> n \<longrightarrow> ident (peliculas s ! j) \<noteq> i)
              \<longrightarrow> obtenerPorId i (peliculas (snd (eliminar i s))) = None)
         \<and> (if admite (localStorage s)
                  (Texto_JSON (take n (peliculas s) @ drop (Suc n) (peliculas s)))
            then fst (eliminar i s)
                   = Retorna \<lparr> exito = True, mensaje = msg_eliminada, pelicula_res = None \<rparr>
              \<and> localStorage (snd (eliminar i s))
                   = (localStorage s)
                       \<lparr> valor := Some (Texto_JSON
                                     (take n (peliculas s) @ drop (Suc n) (peliculas s))) \<rparr>
            else fst (eliminar i s) = Lanza msg_guardar
              \<and> localStorage (snd (eliminar i s)) = localStorage s)"
    by (intro exI [of _ n]) simp
qed


lemma si_vacia: "((if c then [] else [m]) = []) = c"
  by simp

lemma valido_iff:
  "valido (validar URL anio p) =
     (regla_titulo p \<and> regla_genero p \<and> regla_director p \<and> regla_ano anio p
      \<and> regla_calificacion p \<and> regla_descripcion p \<and> imagen p \<noteq> [] \<and> URL (imagen p))"
  unfolding validar_def
  by (simp only: empuja Let_def cumple_titulo cumple_director cumple_descripcion cumple_ano
        cumple_calificacion cumple_genero validacion.simps length_0_conv append_is_Nil_conv
        si_vacia append_Nil)
     (simp add: validarURL_def)

lemma agregar_valida:
  "valido (validar URL anio p) \<Longrightarrow>
   agregar URL anio p s =
     (if admite (localStorage s) (Texto_JSON (peliculas s @ [p]))
      then (Retorna \<lparr> exito = True, mensaje = msg_agregada, pelicula_res = Some p \<rparr>,
            \<lparr> peliculas = peliculas s @ [p],
              localStorage = (localStorage s)
                \<lparr> valor := Some (Texto_JSON (peliculas s @ [p])) \<rparr> \<rparr>)
      else (Lanza msg_guardar, s\<lparr> peliculas := peliculas s @ [p] \<rparr>))"
  unfolding agregar_def Let_def caso_guardar by simp

lemma agregar_invalida:
  "\<not> valido (validar URL anio p) \<Longrightarrow>
   agregar URL anio p s
     = (Retorna (fallo (join [CHR 0x0A] (errores (validar URL anio p)))), s)"
  by (simp add: agregar_def Let_def)

lemma muestra_valida: "valido (validar URL_muestra 2026 pelicula_muestra)"
  unfolding valido_iff using muestra_reglas
  by (simp add: regla_imagen_def pelicula_muestra_def Pelicula_def)

lemma gemela_ident: "ident pelicula_gemela = ident pelicula_muestra"
  by (simp add: pelicula_gemela_def Pelicula_def muestra_ident)

lemma gemela_valida: "valido (validar URL_muestra 2026 pelicula_gemela)"
  unfolding valido_iff
  by (simp add: pelicula_gemela_def Pelicula_def regla_titulo_def regla_genero_def
      regla_director_def regla_ano_def regla_calificacion_def regla_descripcion_def
      URL_muestra_def trim_def espacio_def)

lemma duplicado_peliculas: "peliculas estado_duplicado = [pelicula_muestra, pelicula_gemela]"
  by (simp add: estado_duplicado_def agregar_valida muestra_valida gemela_valida
      almacen_muestra_def)

lemma gemela_distinta: "pelicula_gemela \<noteq> pelicula_muestra"
proof
  assume "pelicula_gemela = pelicula_muestra"
  then have "titulo pelicula_gemela = titulo pelicula_muestra" by simp
  then show False by (simp add: pelicula_gemela_def pelicula_muestra_def Pelicula_def)
qed

text \<open>
  In the catalogue that holds the sample film and its twin, which carry one
  identifier, the deletion of that identifier takes the sample film out, and
  \<open>obtenerPorId\<close> then returns the twin.
\<close>

theorem eliminar_duplicado_counterexample:
  "peliculas estado_duplicado = [pelicula_muestra, pelicula_gemela]
   \<and> obtenerPorId (ident pelicula_muestra)
        (peliculas (snd (eliminar (ident pelicula_muestra) estado_duplicado)))
      = Some pelicula_gemela"
proof (rule conjI [OF duplicado_peliculas])
  have h: "\<exists>p \<in> set (peliculas estado_duplicado). ident p = ident pelicula_muestra"
    by (simp add: duplicado_peliculas)
  show "obtenerPorId (ident pelicula_muestra)
        (peliculas (snd (eliminar (ident pelicula_muestra) estado_duplicado)))
      = Some pelicula_gemela"
    unfolding eliminar_presente [OF h]
    by (simp add: duplicado_peliculas Let_def splice1_def obtenerPorId_def gemela_ident)
qed

text \<open>
  The deletion of the sample film from the middle of the catalogue of three films: the
  film before it and the film after it remain, in that order, and \<open>obtenerPorId\<close> no
  longer finds the sample film. The deletion of a film that is not there leaves the
  manager as it was.
\<close>

theorem eliminar_existente_witness:
  "pelicula_muestra \<in> set (peliculas estado_tres)
   \<and> peliculas estado_tres = [pelicula_anterior, pelicula_muestra, pelicula_posterior]
   \<and> peliculas (snd (eliminar (ident pelicula_muestra) estado_tres))
      = [pelicula_anterior, pelicula_posterior]
   \<and> length (obtenerTodas (peliculas (snd (eliminar (ident pelicula_muestra) estado_tres)))) = 2
   \<and> obtenerPorId (ident pelicula_muestra)
        (peliculas (snd (eliminar (ident pelicula_muestra) estado_tres))) = None
   \<and> eliminar ''movie_0'' estado_tres
      = (Retorna \<lparr> exito = False, mensaje = msg_no_encontrada, pelicula_res = None \<rparr>,
         estado_tres)"
proof -
  let ?i = "ident pelicula_muestra"
  let ?ps = "peliculas estado_tres"
  let ?R = "eliminar ?i estado_tres"
  note t = eliminar_existente [of estado_tres]
  have m: "pelicula_muestra \<in> set ?ps"
    by (simp add: estado_tres_def)
  have e: "?ps = [pelicula_anterior, pelicula_muestra, pelicula_posterior]"
    by (simp add: estado_tres_def)
  from m have "\<exists>p \<in> set ?ps. ident p = ?i" by blast
  with t [of ?i] obtain n where
    n: "n < length ?ps" "ident (?ps ! n) = ?i"
    and ps: "peliculas (snd ?R) = take n ?ps @ drop (Suc n) ?ps"
    and len: "Suc (length (obtenerTodas (peliculas (snd ?R)))) = length (obtenerTodas ?ps)"
    and u: "(\<forall>j < length ?ps. j \<noteq> n \<longrightarrow> ident (?ps ! j) \<noteq> ?i)
              \<longrightarrow> obtenerPorId ?i (peliculas (snd ?R)) = None"
    by blast
  have n1: "n = 1" using n by (rule tres_posicion)
  have uno: "peliculas (snd ?R) = [pelicula_anterior, pelicula_posterior]"
    unfolding ps n1 by (simp add: estado_tres_def)
  have dos: "length (obtenerTodas (peliculas (snd ?R))) = 2"
    using len by (simp add: obtenerTodas_def estado_tres_def)
  have "\<forall>j < length ?ps. j \<noteq> n \<longrightarrow> ident (?ps ! j) \<noteq> ?i"
    unfolding n1
    by (auto simp: estado_tres_def less_Suc_eq muestra_ident anterior_ident posterior_ident)
  with u have tres: "obtenerPorId ?i (peliculas (snd ?R)) = None" by blast
  have "\<forall>p \<in> set ?ps. ident p \<noteq> ''movie_0''"
    by (simp add: estado_tres_def muestra_ident anterior_ident posterior_ident)
  with t [of "''movie_0''"]
  have cuatro: "eliminar ''movie_0'' estado_tres
      = (Retorna \<lparr> exito = False, mensaje = msg_no_encontrada, pelicula_res = None \<rparr>,
         estado_tres)"
    by blast
  from m e uno dos tres cuatro show ?thesis by blast
qed

subsection \<open>Identifiers\<close>

lemma cargar_una_eq:
  "cargar_una r p = p\<lparr> ident := (if ident p = [] then generarID r else ident p) \<rparr>"
  by (simp add: cargar_una_def Pelicula_def)

lemma cargar_una_id: "ident p \<noteq> [] \<Longrightarrow> cargar_una r p = p"
  by (simp add: cargar_una_eq)

lemma map_enumerate_id:
  "(\<forall>x \<in> set xs. \<forall>k. f k x = x) \<Longrightarrow> map (\<lambda>(k, x). f k x) (enumerate n xs) = xs"
  by (induction xs arbitrary: n) simp_all

lemma cargar_JSON:
  "valor (localStorage s) = Some (Texto_JSON xs) \<Longrightarrow>
   cargarPeliculas rs s
     = (Retorna (map (\<lambda>(k, p). cargar_una (rs k) p) (enumerate 0 xs)), s)"
  by (simp add: cargarPeliculas_def Let_def)

lemma manager_JSON:
  "valor a = Some (Texto_JSON xs) \<Longrightarrow>
   PeliculaManager rs a
     = Retorna \<lparr> peliculas = map (\<lambda>(k, p). cargar_una (rs k) p) (enumerate 0 xs),
                 localStorage = a \<rparr>"
  by (simp add: PeliculaManager_def cargar_JSON)

lemma manager_JSON_id:
  assumes "valor a = Some (Texto_JSON xs)" "\<forall>x \<in> set xs. ident x \<noteq> []"
  shows "PeliculaManager rs a = Retorna \<lparr> peliculas = xs, localStorage = a \<rparr>"
proof -
  have "map (\<lambda>(k, p). cargar_una (rs k) p) (enumerate 0 xs) = xs"
    using assms(2) by (intro map_enumerate_id) (simp add: cargar_una_id)
  with manager_JSON [OF assms(1), of rs] show ?thesis by simp
qed

lemma actualizar_idents:
  assumes "i \<noteq> []"
  shows "map ident (peliculas (snd (actualizar URL anio r i d s))) = map ident (peliculas s)"
proof (cases "\<exists>p \<in> set (peliculas s). ident p = i")
  case False
  then show ?thesis by (simp add: actualizar_ausente)
next
  case True
  define n where "n = nat (findIndex (\<lambda>p. ident p = i) (peliculas s))"
  have ne: "findIndex (\<lambda>p. ident p = i) (peliculas s) \<noteq> - 1"
    using True by (simp add: findIndex_none)
  from findIndex_first [OF ne]
  have n: "n < length (peliculas s)" "ident (peliculas s ! n) = i"
    by (simp_all add: n_def)
  have "(map ident (peliculas s))[n := i] = map ident (peliculas s)"
    using n by (metis length_map list_update_id nth_map)
  then show ?thesis
    unfolding actualizar_presente [OF True] caso_guardar Let_def n_def [symmetric]
    using assms by (simp add: map_update Pelicula_campos)
qed

lemma eliminar_idents:
  assumes "distinct (map ident (peliculas s))"
  shows "distinct (map ident (peliculas (snd (eliminar i s))))"
proof (cases "\<exists>p \<in> set (peliculas s). ident p = i")
  case False
  with assms show ?thesis by (simp add: eliminar_ausente)
next
  case True
  define n where "n = nat (findIndex (\<lambda>p. ident p = i) (peliculas s))"
  have "map ident (peliculas s)
      = map ident (take n (peliculas s)) @ map ident (drop n (peliculas s))"
    by (metis append_take_drop_id map_append)
  with assms have d: "distinct (map ident (take n (peliculas s)) @ map ident (drop n (peliculas s)))"
    by simp
  have "set (drop (Suc n) (peliculas s)) \<subseteq> set (drop n (peliculas s))"
    by (rule set_drop_subset_set_drop) simp
  moreover have "distinct (map ident (drop (Suc n) (peliculas s)))"
    using assms by (metis distinct_drop drop_map)
  ultimately have "distinct (map ident (take n (peliculas s) @ drop (Suc n) (peliculas s)))"
    using d by auto
  then show ?thesis
    unfolding eliminar_presente [OF True] Let_def n_def [symmetric]
    by (simp add: splice1_def)
qed

lemma agregar_idents:
  "distinct (map ident (peliculas (snd (agregar URL anio p s))))
   = (distinct (map ident (peliculas s))
      \<and> (valido (validar URL anio p) \<longrightarrow> ident p \<notin> set (map ident (peliculas s))))"
proof (cases "valido (validar URL anio p)")
  case True
  then show ?thesis by (auto simp: agregar_valida)
next
  case False
  then show ?thesis by (simp add: agregar_invalida)
qed

text \<open>
  The constructor never leaves an identifier empty, so no film of a manager that was
  just built has one, and the operations keep it so when the films that are added come
  from the constructor.
\<close>

lemma generarID_no_vacio: "generarID r \<noteq> []"
  by (simp add: generarID_def)

lemma Pelicula_ident_no_vacio: "ident (Pelicula r t g dr a c ds im io) \<noteq> []"
  by (simp add: Pelicula_def generarID_no_vacio split: option.split)

lemma cargar_una_ident_no_vacio: "ident (cargar_una r p) \<noteq> []"
  by (simp add: cargar_una_eq generarID_no_vacio)

lemma iniciales_ident_no_vacio: "\<forall>p \<in> set (peliculasIniciales rs). ident p \<noteq> []"
  by (simp add: peliculasIniciales_def Pelicula_ident_no_vacio)

lemma actualizar_ident_no_vacio:
  assumes "\<forall>p \<in> set (peliculas s). ident p \<noteq> []"
  shows "\<forall>p \<in> set (peliculas (snd (actualizar URL anio r i d s))). ident p \<noteq> []"
proof (cases "\<exists>p \<in> set (peliculas s). ident p = i")
  case False
  with assms show ?thesis by (simp add: actualizar_ausente)
next
  case True
  then have "i \<noteq> []" using assms by auto
  from actualizar_idents [OF this, of URL anio r d s] assms show ?thesis
    by (metis (no_types, lifting) image_iff list.set_map)
qed

lemma eliminar_ident_no_vacio:
  assumes "\<forall>p \<in> set (peliculas s). ident p \<noteq> []"
  shows "\<forall>p \<in> set (peliculas (snd (eliminar i s))). ident p \<noteq> []"
proof (cases "\<exists>p \<in> set (peliculas s). ident p = i")
  case False
  with assms show ?thesis by (simp add: eliminar_ausente)
next
  case True
  have "set (splice1 n (peliculas s)) \<subseteq> set (peliculas s)" for n
    unfolding splice1_def using set_take_subset [of n "peliculas s"]
      set_drop_subset [of "Suc n" "peliculas s"] by auto
  with assms show ?thesis
    unfolding eliminar_presente [OF True] Let_def
    by (auto split: if_splits)
qed

lemma agregar_ident_no_vacio:
  assumes "\<forall>p \<in> set (peliculas s). ident p \<noteq> []" "ident q \<noteq> []"
  shows "\<forall>p \<in> set (peliculas (snd (agregar URL anio q s))). ident p \<noteq> []"
  using assms
  by (cases "valido (validar URL anio q)") (auto simp: agregar_valida agregar_invalida)

text \<open>
  C5. No operation compares identifiers, and this is what each does to them. An update
  with an identifier that is not empty leaves the sequence of the identifiers as it is.
  A deletion keeps them distinct. An addition leaves them distinct exactly when they were
  and the film, if it passes the validation, carries an identifier that no film of the
  catalogue carries. A load from a store that holds an array of films with identifiers
  that are not empty yields films with the identifiers of that array, in its order.
\<close>

theorem identificadores_unicos:
  "(i \<noteq> [] \<longrightarrow>
      map ident (peliculas (snd (actualizar URL anio r i d s))) = map ident (peliculas s))
   \<and> (distinct (map ident (peliculas s)) \<longrightarrow>
        distinct (map ident (peliculas (snd (eliminar i s)))))
   \<and> (distinct (map ident (peliculas (snd (agregar URL anio p s))))
        = (distinct (map ident (peliculas s))
           \<and> (valido (validar URL anio p) \<longrightarrow> ident p \<notin> set (map ident (peliculas s)))))
   \<and> (valor a = Some (Texto_JSON xs) \<and> (\<forall>x \<in> set xs. ident x \<noteq> []) \<longrightarrow>
        (\<exists>ps. PeliculaManager rs a = Retorna \<lparr> peliculas = ps, localStorage = a \<rparr>
           \<and> map ident ps = map ident xs))"
proof -
  have "valor a = Some (Texto_JSON xs) \<and> (\<forall>x \<in> set xs. ident x \<noteq> []) \<longrightarrow>
        (\<exists>ps. PeliculaManager rs a = Retorna \<lparr> peliculas = ps, localStorage = a \<rparr>
           \<and> map ident ps = map ident xs)"
    using manager_JSON_id [of a xs rs] by blast
  with actualizar_idents [of i URL anio r d s] eliminar_idents [of s i]
    agregar_idents [of URL anio p s]
  show ?thesis by blast
qed

text \<open>
  A manager loads the store that holds the empty array and is asked to add the sample
  film and then its twin, built with the identifier of the sample film: its catalogue
  holds two films with one identifier.
\<close>

theorem identificadores_unicos_counterexample:
  "PeliculaManager lecturas_muestra (almacen_muestra (Some (Texto_JSON [])))
     = Retorna \<lparr> peliculas = [], localStorage = almacen_muestra (Some (Texto_JSON [])) \<rparr>
   \<and> map ident (peliculas estado_duplicado)
     = [''movie_1767225600000_k3j9x0q2a'', ''movie_1767225600000_k3j9x0q2a'']
   \<and> \<not> distinct (map ident (peliculas estado_duplicado))"
proof -
  have "valor (almacen_muestra (Some (Texto_JSON []))) = Some (Texto_JSON [])"
    by (simp add: almacen_muestra_def)
  then have a: "PeliculaManager lecturas_muestra (almacen_muestra (Some (Texto_JSON [])))
     = Retorna \<lparr> peliculas = [], localStorage = almacen_muestra (Some (Texto_JSON [])) \<rparr>"
    by (rule manager_JSON_id) simp
  have b: "map ident (peliculas estado_duplicado)
     = [''movie_1767225600000_k3j9x0q2a'', ''movie_1767225600000_k3j9x0q2a'']"
    by (simp add: duplicado_peliculas gemela_ident muestra_ident)
  from a b show ?thesis by simp
qed

text \<open>
  On the catalogue of three films: an update and a deletion of the film in the middle,
  the addition of its twin, and the load of a store that holds the three films.
\<close>

theorem identificadores_unicos_witness:
  "ident pelicula_muestra \<noteq> []
   \<and> map ident (peliculas (snd (actualizar URL_muestra 2026 (lecturas_muestra 3)
        (ident pelicula_muestra) datos_muestra estado_tres)))
      = [''movie_1767225599000_p7w1m4c8z'', ''movie_1767225600000_k3j9x0q2a'',
         ''movie_1767225601000_t5b2h9v3e'']
   \<and> distinct (map ident (peliculas estado_tres))
   \<and> distinct (map ident (peliculas (snd (eliminar (ident pelicula_muestra) estado_tres))))
   \<and> valido (validar URL_muestra 2026 pelicula_gemela)
   \<and> \<not> distinct (map ident (peliculas (snd (agregar URL_muestra 2026 pelicula_gemela
        estado_tres))))
   \<and> (\<exists>ps. PeliculaManager lecturas_muestra
               (almacen_muestra (Some (Texto_JSON (peliculas estado_tres))))
             = Retorna \<lparr> peliculas = ps,
                 localStorage = almacen_muestra (Some (Texto_JSON (peliculas estado_tres))) \<rparr>
           \<and> map ident ps
             = [''movie_1767225599000_p7w1m4c8z'', ''movie_1767225600000_k3j9x0q2a'',
                ''movie_1767225601000_t5b2h9v3e''])"
proof -
  note t = identificadores_unicos [of "ident pelicula_muestra" URL_muestra 2026
      "lecturas_muestra 3" datos_muestra estado_tres pelicula_gemela
      "almacen_muestra (Some (Texto_JSON (peliculas estado_tres)))" "peliculas estado_tres"
      lecturas_muestra]
  have ids: "map ident (peliculas estado_tres)
      = [''movie_1767225599000_p7w1m4c8z'', ''movie_1767225600000_k3j9x0q2a'',
         ''movie_1767225601000_t5b2h9v3e'']"
    by (simp add: estado_tres_def anterior_ident muestra_ident posterior_ident)
  have ne: "ident pelicula_muestra \<noteq> []" by (simp add: muestra_ident)
  have d: "distinct (map ident (peliculas estado_tres))"
    unfolding ids by simp
  have g: "ident pelicula_gemela \<in> set (map ident (peliculas estado_tres))"
    unfolding ids by (simp add: gemela_ident muestra_ident)
  have v: "valor (almacen_muestra (Some (Texto_JSON (peliculas estado_tres))))
      = Some (Texto_JSON (peliculas estado_tres))
    \<and> (\<forall>x \<in> set (peliculas estado_tres). ident x \<noteq> [])"
    by (simp add: almacen_muestra_def estado_tres_def anterior_ident muestra_ident
        posterior_ident)
  from t ne d g gemela_valida v show ?thesis unfolding ids by blast
qed

subsection \<open>Searching and filtering\<close>

text \<open>
  C7. \<open>buscarYFiltrar\<close> returns what \<open>filtrarPorGenero\<close> returns on the result of
  \<open>buscar\<close>, and what \<open>buscar\<close> returns on the result of \<open>filtrarPorGenero\<close>; it is the
  films of the catalogue, in their order, that match the term (an empty or blank term
  matches every film) and carry the genre (an empty genre is carried by every film).
\<close>

theorem buscarYFiltrar_conmuta:
  "buscarYFiltrar termino g ps = filtrarPorGenero g (buscar termino ps)
   \<and> buscarYFiltrar termino g ps = buscar termino (filtrarPorGenero g ps)
   \<and> buscarYFiltrar termino g ps
       = filter (\<lambda>p. (termino = [] \<or> trim termino = [] \<or> coincide (toLowerCase termino) p)
                     \<and> (g = [] \<or> genero p = g)) ps"
proof -
  let ?T = "termino = [] \<or> trim termino = []"
  have conm: "filter P (filter Q ps) = filter Q (filter P ps)" for P Q :: "pelicula \<Rightarrow> bool"
    by (induction ps) simp_all
  have y: "buscarYFiltrar termino g ps =
      (if ?T then (if g = [] then ps else filter (\<lambda>p. genero p = g) ps)
       else (if g = [] then filter (coincide (toLowerCase termino)) ps
             else filter (coincide (toLowerCase termino)) (filter (\<lambda>p. genero p = g) ps)))"
    by (simp add: buscarYFiltrar_def obtenerTodas_def Let_def)
  have a: "filtrarPorGenero g (buscar termino ps) =
      (if ?T then (if g = [] then ps else filter (\<lambda>p. genero p = g) ps)
       else (if g = [] then filter (coincide (toLowerCase termino)) ps
             else filter (\<lambda>p. genero p = g) (filter (coincide (toLowerCase termino)) ps)))"
    by (simp add: filtrarPorGenero_def buscar_def obtenerTodas_def Let_def)
  have b: "buscar termino (filtrarPorGenero g ps) =
      (if ?T then (if g = [] then ps else filter (\<lambda>p. genero p = g) ps)
       else (if g = [] then filter (coincide (toLowerCase termino)) ps
             else filter (coincide (toLowerCase termino)) (filter (\<lambda>p. genero p = g) ps)))"
    by (simp add: filtrarPorGenero_def buscar_def obtenerTodas_def Let_def)
  have c: "filter (\<lambda>p. (?T \<or> coincide (toLowerCase termino) p) \<and> (g = [] \<or> genero p = g)) ps =
      (if ?T then (if g = [] then ps else filter (\<lambda>p. genero p = g) ps)
       else (if g = [] then filter (coincide (toLowerCase termino)) ps
             else filter (coincide (toLowerCase termino)) (filter (\<lambda>p. genero p = g) ps)))"
  proof (cases ?T)
    case True
    then show ?thesis by (cases "g = []") simp_all
  next
    case False
    then show ?thesis
      by (cases "g = []") (simp_all add: conj_commute)
  qed
  have "buscarYFiltrar termino g ps = filtrarPorGenero g (buscar termino ps)"
    unfolding y a using conm [of "\<lambda>p. genero p = g" "coincide (toLowerCase termino)"]
    by presburger
  moreover have "buscarYFiltrar termino g ps = buscar termino (filtrarPorGenero g ps)"
    unfolding y b ..
  moreover have "buscarYFiltrar termino g ps
       = filter (\<lambda>p. (?T \<or> coincide (toLowerCase termino) p) \<and> (g = [] \<or> genero p = g)) ps"
    unfolding y c ..
  ultimately show ?thesis by (simp only: disj_assoc)
qed

subsection \<open>The most recent films\<close>

lemma insertar_recientes:
  "insertar cmp_recientes x ys = insort_key (\<lambda>p. - fechaCreacion p) x ys"
  by (induction ys) (auto simp: cmp_recientes_def)

lemma js_sort_recientes: "js_sort cmp_recientes ps = sort_key (\<lambda>p. - fechaCreacion p) ps"
proof -
  have "insertar cmp_recientes = insort_key (\<lambda>p. - fechaCreacion p)"
    by (intro ext) (rule insertar_recientes)
  then show ?thesis by (simp add: js_sort_def sort_key_def)
qed

lemma recientes_mset: "mset (js_sort cmp_recientes ps) = mset ps"
  by (simp add: js_sort_recientes)

lemma recientes_orden:
  "sorted_wrt (\<lambda>a b. fechaCreacion b \<le> fechaCreacion a) (js_sort cmp_recientes ps)"
proof -
  have "sorted (map (\<lambda>p. - fechaCreacion p) (sort_key (\<lambda>p. - fechaCreacion p) ps))"
    by (rule sorted_sort_key)
  then show ?thesis by (simp add: js_sort_recientes sorted_map)
qed

lemma recientes_estable:
  "filter (\<lambda>p. fechaCreacion p = t) (js_sort cmp_recientes ps)
     = filter (\<lambda>p. fechaCreacion p = t) ps"
proof -
  have "(\<lambda>p. fechaCreacion p = t) = (\<lambda>p. - fechaCreacion p = - t)" by auto
  then show ?thesis
    unfolding js_sort_recientes
    using sort_key_stable [of "\<lambda>p. - fechaCreacion p" "- t" ps] by simp
qed

lemma recientes_longitud: "length (js_sort cmp_recientes ps) = length ps"
  by (metis recientes_mset size_mset)

lemma recientes_tres:
  "fechaCreacion a < fechaCreacion b \<Longrightarrow> fechaCreacion b < fechaCreacion c
   \<Longrightarrow> obtenerRecientes (Some 2) [a, b, c] = [c, b]"
  by (simp add: obtenerRecientes_def js_sort_def cmp_recientes_def)

text \<open>
  C8. \<open>obtenerRecientes\<close> returns the first \<open>min n (length ps)\<close> films of the catalogue
  sorted by creation date, the latest first: the sorted catalogue has the films of the
  catalogue, each date is at most the dates before it, and the films of one date keep the
  order they have in the catalogue. Without an argument it returns what it returns for
  5, and for a number that is at least the size of the catalogue it returns the whole
  sorted catalogue. On three films \<open>a\<close>, \<open>b\<close>, \<open>c\<close> whose creation dates strictly increase
  in that order, it returns \<open>c\<close> and \<open>b\<close> for 2.
\<close>

theorem obtenerRecientes_orden:
  "obtenerRecientes (Some n) ps = take (min n (length ps)) (js_sort cmp_recientes ps)
   \<and> length (obtenerRecientes (Some n) ps) = min n (length ps)
   \<and> mset (js_sort cmp_recientes ps) = mset ps
   \<and> sorted_wrt (\<lambda>a b. fechaCreacion b \<le> fechaCreacion a) (js_sort cmp_recientes ps)
   \<and> (\<forall>t. filter (\<lambda>p. fechaCreacion p = t) (js_sort cmp_recientes ps)
            = filter (\<lambda>p. fechaCreacion p = t) ps)
   \<and> obtenerRecientes None ps = obtenerRecientes (Some 5) ps
   \<and> (length ps \<le> n \<longrightarrow> obtenerRecientes (Some n) ps = js_sort cmp_recientes ps)
   \<and> (fechaCreacion a < fechaCreacion b \<and> fechaCreacion b < fechaCreacion c
        \<longrightarrow> obtenerRecientes (Some 2) [a, b, c] = [c, b])"
proof -
  have 1: "obtenerRecientes (Some n) ps = take (min n (length ps)) (js_sort cmp_recientes ps)"
    by (simp add: obtenerRecientes_def recientes_longitud min_def)
  have 2: "length (obtenerRecientes (Some n) ps) = min n (length ps)"
    by (simp add: obtenerRecientes_def recientes_longitud)
  have 6: "obtenerRecientes None ps = obtenerRecientes (Some 5) ps"
    by (simp add: obtenerRecientes_def)
  have 7: "length ps \<le> n \<longrightarrow> obtenerRecientes (Some n) ps = js_sort cmp_recientes ps"
    by (simp add: obtenerRecientes_def recientes_longitud)
  from 1 2 recientes_mset recientes_orden recientes_estable 6 7 recientes_tres
  show ?thesis by blast
qed

text \<open>
  The first three films of the built-in catalogue, built one after the other within one
  millisecond: the two most recent ones are the first two, in the order of the
  catalogue, and not the third and the second.
\<close>

theorem obtenerRecientes_empate_counterexample:
  "map titulo (take 3 (peliculasIniciales lecturas_muestra))
     = [''Matrix'', ''El Padrino'', ''Inception'']
   \<and> map fechaCreacion (take 3 (peliculasIniciales lecturas_muestra))
     = [1767225600000, 1767225600000, 1767225600000]
   \<and> map titulo (obtenerRecientes (Some 2) (take 3 (peliculasIniciales lecturas_muestra)))
     = [''Matrix'', ''El Padrino'']"
  by (simp add: obtenerRecientes_def js_sort_def cmp_recientes_def peliculasIniciales_def
      Pelicula_def lecturas_muestra_def)

text \<open>
  The same three films built one millisecond apart: the two most recent ones are the third
  and the second, and the five most recent ones are the three, the last one first.
\<close>

theorem obtenerRecientes_orden_witness:
  "fechaCreacion (peliculasIniciales lecturas_sucesivas ! 0)
     < fechaCreacion (peliculasIniciales lecturas_sucesivas ! 1)
   \<and> fechaCreacion (peliculasIniciales lecturas_sucesivas ! 1)
     < fechaCreacion (peliculasIniciales lecturas_sucesivas ! 2)
   \<and> obtenerRecientes (Some 2)
        [peliculasIniciales lecturas_sucesivas ! 0, peliculasIniciales lecturas_sucesivas ! 1,
         peliculasIniciales lecturas_sucesivas ! 2]
      = [peliculasIniciales lecturas_sucesivas ! 2, peliculasIniciales lecturas_sucesivas ! 1]
   \<and> length [pelicula_muestra] \<le> 5
   \<and> obtenerRecientes (Some 5) [pelicula_muestra] = js_sort cmp_recientes [pelicula_muestra]"
proof -
  let ?a = "peliculasIniciales lecturas_sucesivas ! 0"
  let ?b = "peliculasIniciales lecturas_sucesivas ! 1"
  let ?c = "peliculasIniciales lecturas_sucesivas ! 2"
  have ab: "fechaCreacion ?a < fechaCreacion ?b"
    by (simp add: peliculasIniciales_def Pelicula_def lecturas_sucesivas_def)
  have bc: "fechaCreacion ?b < fechaCreacion ?c"
    by (simp add: peliculasIniciales_def Pelicula_def lecturas_sucesivas_def)
  have l: "length [pelicula_muestra] \<le> 5" by simp
  from obtenerRecientes_orden [of 5 "[pelicula_muestra]" ?a ?b ?c] ab bc l
  show ?thesis by blast
qed

subsection \<open>Loading\<close>

lemma iniciales_guardar:
  "obtenerPeliculasIniciales rs s =
     (if admite (localStorage s) (Texto_JSON (peliculasIniciales rs))
      then (Retorna (peliculasIniciales rs),
            \<lparr> peliculas = peliculasIniciales rs,
              localStorage = (localStorage s)
                \<lparr> valor := Some (Texto_JSON (peliculasIniciales rs)) \<rparr> \<rparr>)
      else (Lanza msg_guardar, s\<lparr> peliculas := peliculasIniciales rs \<rparr>))"
  unfolding obtenerPeliculasIniciales_def Let_def caso_guardar by simp

lemma manager_iniciales:
  assumes "valor a = None \<or> valor a = Some Texto_vacio \<or> valor a = Some Texto_ilegible"
    and "admite a (Texto_JSON (peliculasIniciales rs))"
  shows "PeliculaManager rs a
     = Retorna \<lparr> peliculas = peliculasIniciales rs,
                 localStorage = a\<lparr> valor := Some (Texto_JSON (peliculasIniciales rs)) \<rparr> \<rparr>"
  using assms
  by (auto simp: PeliculaManager_def cargarPeliculas_def Let_def iniciales_guardar)

text \<open>
  C1. A manager built on a store that has no text under the key, or the empty text, or
  a text that cannot be read, and that accepts the write, holds the built-in catalogue
  and has written it to the store. A manager built on a store that holds the text of an
  array holds the films built from that array and leaves the store as it is; for the
  text of the empty array its catalogue is empty.
\<close>

theorem cargar_desde_almacen:
  "((valor a = None \<or> valor a = Some Texto_vacio \<or> valor a = Some Texto_ilegible)
      \<and> admite a (Texto_JSON (peliculasIniciales rs)) \<longrightarrow>
      PeliculaManager rs a
        = Retorna \<lparr> peliculas = peliculasIniciales rs,
                    localStorage = a\<lparr> valor := Some (Texto_JSON (peliculasIniciales rs)) \<rparr> \<rparr>)
   \<and> (valor a = Some (Texto_JSON xs) \<longrightarrow>
      PeliculaManager rs a
        = Retorna \<lparr> peliculas = map (\<lambda>(k, p). cargar_una (rs k) p) (enumerate 0 xs),
                    localStorage = a \<rparr>)
   \<and> (valor a = Some (Texto_JSON []) \<longrightarrow>
      PeliculaManager rs a = Retorna \<lparr> peliculas = [], localStorage = a \<rparr>)"
proof (intro conjI impI)
  assume "(valor a = None \<or> valor a = Some Texto_vacio \<or> valor a = Some Texto_ilegible)
      \<and> admite a (Texto_JSON (peliculasIniciales rs))"
  then show "PeliculaManager rs a
        = Retorna \<lparr> peliculas = peliculasIniciales rs,
                    localStorage = a\<lparr> valor := Some (Texto_JSON (peliculasIniciales rs)) \<rparr> \<rparr>"
    by (intro manager_iniciales) simp_all
next
  assume "valor a = Some (Texto_JSON xs)"
  then show "PeliculaManager rs a
        = Retorna \<lparr> peliculas = map (\<lambda>(k, p). cargar_una (rs k) p) (enumerate 0 xs),
                    localStorage = a \<rparr>"
    by (rule manager_JSON)
next
  assume "valor a = Some (Texto_JSON [])"
  from manager_JSON [OF this, of rs]
  show "PeliculaManager rs a = Retorna \<lparr> peliculas = [], localStorage = a \<rparr>"
    by simp
qed

text \<open>
  A manager with an empty catalogue saves it, and a manager is then built on that store:
  the store holds the text of the empty array, the new manager has an empty catalogue,
  and the built-in catalogue has eight films.
\<close>

theorem cargar_vacio_counterexample:
  "localStorage (snd (guardarPeliculas \<lparr> peliculas = [], localStorage = almacen_muestra None \<rparr>))
     = almacen_muestra (Some (Texto_JSON []))
   \<and> PeliculaManager lecturas_muestra (almacen_muestra (Some (Texto_JSON [])))
     = Retorna \<lparr> peliculas = [], localStorage = almacen_muestra (Some (Texto_JSON [])) \<rparr>
   \<and> length (peliculasIniciales lecturas_muestra) = 8"
proof -
  have a: "localStorage (snd (guardarPeliculas
        \<lparr> peliculas = [], localStorage = almacen_muestra None \<rparr>))
     = almacen_muestra (Some (Texto_JSON []))"
    by (simp add: guardarPeliculas_def JSON_stringify_def almacen_muestra_def)
  have "valor (almacen_muestra (Some (Texto_JSON []))) = Some (Texto_JSON [])"
    by (simp add: almacen_muestra_def)
  from manager_JSON [OF this, of lecturas_muestra]
  have b: "PeliculaManager lecturas_muestra (almacen_muestra (Some (Texto_JSON [])))
     = Retorna \<lparr> peliculas = [], localStorage = almacen_muestra (Some (Texto_JSON [])) \<rparr>"
    by simp
  have c: "length (peliculasIniciales lecturas_muestra) = 8"
    by (simp add: peliculasIniciales_def)
  from a b c show ?thesis by blast
qed

text \<open>
  Managers built on a store without a text, on a store that holds the sample film, and on
  a store that holds the empty array.
\<close>

theorem cargar_desde_almacen_witness:
  "valor (almacen_muestra None) = None
   \<and> admite (almacen_muestra None) (Texto_JSON (peliculasIniciales lecturas_muestra))
   \<and> PeliculaManager lecturas_muestra (almacen_muestra None)
      = Retorna \<lparr> peliculas = peliculasIniciales lecturas_muestra,
                  localStorage = almacen_muestra
                    (Some (Texto_JSON (peliculasIniciales lecturas_muestra))) \<rparr>
   \<and> PeliculaManager lecturas_muestra (almacen_muestra (Some (Texto_JSON [pelicula_muestra])))
      = Retorna \<lparr> peliculas = [pelicula_muestra],
                  localStorage = almacen_muestra (Some (Texto_JSON [pelicula_muestra])) \<rparr>
   \<and> PeliculaManager lecturas_muestra (almacen_muestra (Some (Texto_JSON [])))
      = Retorna \<lparr> peliculas = [], localStorage = almacen_muestra (Some (Texto_JSON [])) \<rparr>"
proof -
  have n: "valor (almacen_muestra None) = None"
    and ad: "admite (almacen_muestra None) (Texto_JSON (peliculasIniciales lecturas_muestra))"
    by (simp_all add: almacen_muestra_def)
  have up: "(almacen_muestra None)\<lparr> valor := Some t \<rparr> = almacen_muestra (Some t)" for t
    by (simp add: almacen_muestra_def)
  from cargar_desde_almacen [of "almacen_muestra None" lecturas_muestra] n ad
  have 1: "PeliculaManager lecturas_muestra (almacen_muestra None)
      = Retorna \<lparr> peliculas = peliculasIniciales lecturas_muestra,
                  localStorage = almacen_muestra
                    (Some (Texto_JSON (peliculasIniciales lecturas_muestra))) \<rparr>"
    by (simp add: up)
  have v: "valor (almacen_muestra (Some t)) = Some t" for t
    by (simp add: almacen_muestra_def)
  have "ident pelicula_muestra \<noteq> []" by (simp add: muestra_ident)
  then have c: "cargar_una (lecturas_muestra 0) pelicula_muestra = pelicula_muestra"
    by (rule cargar_una_id)
  from cargar_desde_almacen [of "almacen_muestra (Some (Texto_JSON [pelicula_muestra]))"
      lecturas_muestra "[pelicula_muestra]"] v c
  have 2: "PeliculaManager lecturas_muestra
        (almacen_muestra (Some (Texto_JSON [pelicula_muestra])))
      = Retorna \<lparr> peliculas = [pelicula_muestra],
                  localStorage = almacen_muestra (Some (Texto_JSON [pelicula_muestra])) \<rparr>"
    by simp
  from cargar_desde_almacen [of "almacen_muestra (Some (Texto_JSON []))" lecturas_muestra] v
  have 3: "PeliculaManager lecturas_muestra (almacen_muestra (Some (Texto_JSON [])))
      = Retorna \<lparr> peliculas = [], localStorage = almacen_muestra (Some (Texto_JSON [])) \<rparr>"
    by simp
  from n ad 1 2 3 show ?thesis by blast
qed

subsection \<open>Validity of the catalogue\<close>

lemma regla_ano_mono: "a \<le> b \<Longrightarrow> regla_ano a p \<Longrightarrow> regla_ano b p"
  by (auto simp: regla_ano_def split: numero.splits)

lemma valido_mono:
  "a \<le> b \<Longrightarrow> valido (validar URL a p) \<Longrightarrow> valido (validar URL b p)"
  unfolding valido_iff using regla_ano_mono [of a b p] by blast

lemma valido_cargar_una:
  "valido (validar URL anio (cargar_una r p)) = valido (validar URL anio p)"
  unfolding valido_iff cargar_una_eq
  by (simp add: regla_titulo_def regla_genero_def regla_director_def regla_ano_def
      regla_calificacion_def regla_descripcion_def)

lemma todas_validas_set:
  "todas_validas URL anio ps = (\<forall>p \<in> set ps. valido (validar URL anio p))"
  by (simp add: todas_validas_def list_all_iff)

lemma inv_guardar:
  assumes "almacen_valido URL anio (localStorage s)" "todas_validas URL anio ps"
  shows "inv_validas URL anio
     (snd (if admite (localStorage s) (Texto_JSON ps)
           then (Retorna x, \<lparr> peliculas = ps,
                   localStorage = (localStorage s)\<lparr> valor := Some (Texto_JSON ps) \<rparr> \<rparr>)
           else (Lanza msg_guardar, s\<lparr> peliculas := ps \<rparr>)))"
  using assms by (simp add: inv_validas_def almacen_valido_def)

lemma inv_agregar:
  assumes "inv_validas URL anio s" "a \<le> anio"
  shows "inv_validas URL anio (snd (agregar URL a p s))"
proof (cases "valido (validar URL a p)")
  case False
  with assms show ?thesis by (simp add: agregar_invalida)
next
  case True
  then have "valido (validar URL anio p)" using assms(2) valido_mono by blast
  then have "todas_validas URL anio (peliculas s @ [p])"
    using assms(1) by (simp add: inv_validas_def todas_validas_def)
  with assms(1) show ?thesis
    unfolding agregar_valida [OF True] by (intro inv_guardar) (simp add: inv_validas_def)
qed

lemma inv_actualizar:
  assumes "inv_validas URL anio s" "a \<le> anio"
  shows "inv_validas URL anio (snd (actualizar URL a r i d s))"
proof (cases "\<exists>p \<in> set (peliculas s). ident p = i")
  case False
  with assms show ?thesis by (simp add: actualizar_ausente)
next
  case True
  define n where "n = nat (findIndex (\<lambda>p. ident p = i) (peliculas s))"
  define q where "q = (Pelicula r (titulo_d d) (genero_d d) (director_d d) (ano_d d)
                 (calificacion_d d) (descripcion_d d) (imagen_d d) (Some i))
              \<lparr> fechaCreacion := fechaCreacion (peliculas s ! n) \<rparr>"
  note e = actualizar_presente [OF True, of URL a r d, unfolded Let_def caso_guardar,
      folded n_def, folded q_def]
  show ?thesis
  proof (cases "valido (validar URL a q)")
    case False
    with assms show ?thesis unfolding e by simp
  next
    case v: True
    then have "valido (validar URL anio q)" using assms(2) valido_mono by blast
    moreover have "set ((peliculas s)[n := q]) \<subseteq> insert q (set (peliculas s))"
      by (rule set_update_subset_insert)
    ultimately have "todas_validas URL anio ((peliculas s)[n := q])"
      using assms(1) by (auto simp: inv_validas_def todas_validas_set)
    with assms(1) v show ?thesis
      unfolding e by (simp add: inv_validas_def almacen_valido_def)
  qed
qed

lemma inv_eliminar:
  assumes "inv_validas URL anio s"
  shows "inv_validas URL anio (snd (eliminar i s))"
proof (cases "\<exists>p \<in> set (peliculas s). ident p = i")
  case False
  with assms show ?thesis by (simp add: eliminar_ausente)
next
  case True
  define n where "n = nat (findIndex (\<lambda>p. ident p = i) (peliculas s))"
  have "set (splice1 n (peliculas s)) \<subseteq> set (peliculas s)"
    unfolding splice1_def using set_take_subset [of n "peliculas s"]
      set_drop_subset [of "Suc n" "peliculas s"] by auto
  then have "todas_validas URL anio (splice1 n (peliculas s))"
    using assms by (auto simp: inv_validas_def todas_validas_set)
  with assms show ?thesis
    unfolding eliminar_presente [OF True] Let_def n_def [symmetric]
    by (simp add: inv_validas_def almacen_valido_def)
qed

lemma inv_llamar:
  "inv_validas URL anio s \<Longrightarrow> hasta anio c \<Longrightarrow> inv_validas URL anio (llamar URL c s)"
  by (cases c) (simp_all add: inv_agregar inv_actualizar inv_eliminar)

lemma inv_llamadas:
  "inv_validas URL anio s \<Longrightarrow> list_all (hasta anio) cs
   \<Longrightarrow> inv_validas URL anio (llamadas URL cs s)"
  by (induction cs arbitrary: s) (simp_all add: inv_llamar)

lemma cargadas_validas:
  "map (\<lambda>p. valido (validar URL anio p)) (map (\<lambda>(k, p). cargar_una (rs k) p) (enumerate n xs))
   = map (\<lambda>p. valido (validar URL anio p)) xs"
  by (induction xs arbitrary: n) (simp_all add: valido_cargar_una)

lemma iniciales_validas:
  assumes "2009 \<le> anio" "list_all (\<lambda>p. URL (imagen p)) (peliculasIniciales rs)"
  shows "todas_validas URL anio (peliculasIniciales rs)"
  using assms unfolding todas_validas_def valido_iff
  by (simp add: peliculasIniciales_def Pelicula_def regla_titulo_def regla_genero_def
      regla_director_def regla_ano_def regla_calificacion_def regla_descripcion_def
      trim_def espacio_def)


text \<open>
  C2. From a catalogue and a store whose films all pass \<open>validar\<close> in the year \<open>anio\<close>,
  any sequence of additions, updates and deletions made in years up to \<open>anio\<close> leads to a
  catalogue and a store whose films all pass it. The built-in catalogue passes it in every
  year from 2009 on, if the platform's parser accepts the addresses of its images. A load
  does not validate: every film it builds from the array in the store passes \<open>validar\<close>
  exactly when the stored object does.
\<close>

theorem validez_conservada:
  "(todas_validas URL anio (peliculas s) \<and> almacen_valido URL anio (localStorage s)
      \<and> list_all (hasta anio) cs \<longrightarrow>
      todas_validas URL anio (peliculas (llamadas URL cs s))
      \<and> almacen_valido URL anio (localStorage (llamadas URL cs s)))
   \<and> (2009 \<le> anio \<and> list_all (\<lambda>p. URL (imagen p)) (peliculasIniciales rs) \<longrightarrow>
        todas_validas URL anio (peliculasIniciales rs))
   \<and> (valor a = Some (Texto_JSON xs) \<longrightarrow>
        (\<exists>ps. PeliculaManager rs a = Retorna \<lparr> peliculas = ps, localStorage = a \<rparr>
           \<and> map (\<lambda>p. valido (validar URL anio p)) ps
             = map (\<lambda>p. valido (validar URL anio p)) xs))"
proof (intro conjI impI)
  assume "todas_validas URL anio (peliculas s) \<and> almacen_valido URL anio (localStorage s)
      \<and> list_all (hasta anio) cs"
  then have "inv_validas URL anio (llamadas URL cs s)"
    by (intro inv_llamadas) (simp_all add: inv_validas_def)
  then show "todas_validas URL anio (peliculas (llamadas URL cs s))"
    and "almacen_valido URL anio (localStorage (llamadas URL cs s))"
    by (simp_all add: inv_validas_def)
next
  assume "2009 \<le> anio \<and> list_all (\<lambda>p. URL (imagen p)) (peliculasIniciales rs)"
  then show "todas_validas URL anio (peliculasIniciales rs)"
    by (intro iniciales_validas) simp_all
next
  assume "valor a = Some (Texto_JSON xs)"
  from manager_JSON [OF this, of rs] cargadas_validas [of URL anio rs 0 xs]
  show "\<exists>ps. PeliculaManager rs a = Retorna \<lparr> peliculas = ps, localStorage = a \<rparr>
           \<and> map (\<lambda>p. valido (validar URL anio p)) ps
             = map (\<lambda>p. valido (validar URL anio p)) xs"
    by blast
qed

lemma corta_invalida: "\<not> valido (validar URL_muestra 2026 pelicula_corta)"
  unfolding valido_iff by (simp add: pelicula_corta_def regla_titulo_def trim_def espacio_def)

text \<open>
  A store holds the sample film with a title of one character: the manager built on it
  holds that film, which does not pass \<open>validar\<close>.
\<close>

theorem validez_conservada_counterexample:
  "PeliculaManager lecturas_muestra (almacen_muestra (Some (Texto_JSON [pelicula_corta])))
     = Retorna \<lparr> peliculas = [pelicula_corta],
                 localStorage = almacen_muestra (Some (Texto_JSON [pelicula_corta])) \<rparr>
   \<and> \<not> valido (validar URL_muestra 2026 pelicula_corta)"
proof -
  have v: "valor (almacen_muestra (Some (Texto_JSON [pelicula_corta])))
      = Some (Texto_JSON [pelicula_corta])"
    by (simp add: almacen_muestra_def)
  have "ident pelicula_corta \<noteq> []"
    by (simp add: pelicula_corta_def muestra_ident)
  then have "\<forall>x \<in> set [pelicula_corta]. ident x \<noteq> []" by simp
  from manager_JSON_id [OF v this, of lecturas_muestra] corta_invalida
  show ?thesis by blast
qed

text \<open>
  The sample catalogue and the sample calls in 2026, the built-in catalogue in 2026, and
  the load of a store that holds the sample film.
\<close>

theorem validez_conservada_witness:
  "todas_validas URL_muestra 2026 (peliculas estado_muestra)
   \<and> almacen_valido URL_muestra 2026 (localStorage estado_muestra)
   \<and> list_all (hasta 2026) llamadas_muestra
   \<and> todas_validas URL_muestra 2026 (peliculas (llamadas URL_muestra llamadas_muestra estado_muestra))
   \<and> almacen_valido URL_muestra 2026
        (localStorage (llamadas URL_muestra llamadas_muestra estado_muestra))
   \<and> list_all (\<lambda>p. URL_muestra (imagen p)) (peliculasIniciales lecturas_muestra)
   \<and> todas_validas URL_muestra 2026 (peliculasIniciales lecturas_muestra)
   \<and> (\<exists>ps. PeliculaManager lecturas_muestra
               (almacen_muestra (Some (Texto_JSON [pelicula_muestra])))
             = Retorna \<lparr> peliculas = ps,
                 localStorage = almacen_muestra (Some (Texto_JSON [pelicula_muestra])) \<rparr>
           \<and> map (\<lambda>p. valido (validar URL_muestra 2026 p)) ps = [True])"
proof -
  note t = validez_conservada [of URL_muestra 2026 estado_muestra llamadas_muestra
      lecturas_muestra "almacen_muestra (Some (Texto_JSON [pelicula_muestra]))"
      "[pelicula_muestra]"]
  have 1: "todas_validas URL_muestra 2026 (peliculas estado_muestra)"
    by (simp add: todas_validas_def estado_muestra_def muestra_valida)
  have 2: "almacen_valido URL_muestra 2026 (localStorage estado_muestra)"
    by (simp add: almacen_valido_def estado_muestra_def almacen_muestra_def)
  have 3: "list_all (hasta 2026) llamadas_muestra"
    by (simp add: llamadas_muestra_def)
  have 4: "list_all (\<lambda>p. URL_muestra (imagen p)) (peliculasIniciales lecturas_muestra)"
    by (simp add: peliculasIniciales_def Pelicula_def URL_muestra_def)
  have 5: "(2009::int) \<le> 2026" by simp
  have 6: "valor (almacen_muestra (Some (Texto_JSON [pelicula_muestra])))
      = Some (Texto_JSON [pelicula_muestra])"
    by (simp add: almacen_muestra_def)
  have 7: "map (\<lambda>p. valido (validar URL_muestra 2026 p)) [pelicula_muestra] = [True]"
    by (simp add: muestra_valida)
  from t 1 2 3 4 5 6 show ?thesis unfolding 7 [symmetric] by blast
qed

subsection \<open>Purity of the queries\<close>

lemma devuelve_nuevo: "devuelve m (nuevo xs m) xs"
  by (simp add: devuelve_def nuevo_def sin_efecto_def)

lemma devuelve_spread: "devuelve m (spread_a a m) (arreglos m ! a)"
  by (simp add: spread_a_def devuelve_nuevo)

lemma devuelve_filter: "devuelve m (filter_a P a m) (filter P (arreglos m ! a))"
  by (simp add: filter_a_def devuelve_nuevo)

lemma devuelve_spread_sort:
  "devuelve m (case spread_a a m of (c, m1) \<Rightarrow> sort_a cmp c m1) (js_sort cmp (arreglos m ! a))"
  by (simp add: spread_a_def nuevo_def sort_a_def devuelve_def sin_efecto_def)

lemma todas_pura: "devuelve m (obtenerTodas_m m) (obtenerTodas (arreglos m ! this_peliculas m))"
  by (simp add: obtenerTodas_m_def obtenerTodas_def devuelve_spread)

lemma buscar_pura:
  "devuelve m (buscar_m termino m) (buscar termino (arreglos m ! this_peliculas m))"
  using todas_pura [of m]
  by (simp add: buscar_m_def buscar_def Let_def devuelve_filter)

lemma filtrar_pura:
  "devuelve m (filtrarPorGenero_m g m) (filtrarPorGenero g (arreglos m ! this_peliculas m))"
  using todas_pura [of m]
  by (simp add: filtrarPorGenero_m_def filtrarPorGenero_def devuelve_filter)

lemma buscarYFiltrar_pura:
  "devuelve m (buscarYFiltrar_m termino g m)
     (buscarYFiltrar termino g (arreglos m ! this_peliculas m))"
  by (simp add: buscarYFiltrar_m_def buscarYFiltrar_def obtenerTodas_m_def obtenerTodas_def
      spread_a_def filter_a_def nuevo_def Let_def devuelve_def sin_efecto_def nth_append)

lemma recientes_pura:
  "devuelve m (obtenerRecientes_m cantidad m)
     (obtenerRecientes cantidad (arreglos m ! this_peliculas m))"
  by (simp add: obtenerRecientes_m_def obtenerRecientes_def spread_a_def sort_a_def slice_a_def
      nuevo_def Let_def devuelve_def sin_efecto_def nth_append)

lemma calificacion_pura:
  "devuelve m (ordenarPorCalificacion_m descendente m)
     (ordenarPorCalificacion descendente (arreglos m ! this_peliculas m))"
  using devuelve_spread_sort [where m = m and a = "this_peliculas m"]
  by (simp add: ordenarPorCalificacion_m_def ordenarPorCalificacion_def Let_def)

lemma ano_pura:
  "devuelve m (ordenarPorAno_m descendente m)
     (ordenarPorAno descendente (arreglos m ! this_peliculas m))"
  using devuelve_spread_sort [where m = m and a = "this_peliculas m"]
  by (simp add: ordenarPorAno_m_def ordenarPorAno_def Let_def)

text \<open>
  C9. Every query leaves the manager as it was: the field \<^verbatim>\<open>peliculas\<close> holds the same
  array, that array and every other array that existed have the content they had, and
  the store is the same. \<open>obtenerPorId\<close> changes nothing at all; each of the other
  queries returns a new array, which holds what the query computes from the catalogue.
\<close>

theorem consultas_puras:
  "devuelve m (obtenerTodas_m m) (obtenerTodas (arreglos m ! this_peliculas m))
   \<and> obtenerPorId_m i m = (obtenerPorId i (arreglos m ! this_peliculas m), m)
   \<and> devuelve m (buscar_m termino m) (buscar termino (arreglos m ! this_peliculas m))
   \<and> devuelve m (filtrarPorGenero_m g m) (filtrarPorGenero g (arreglos m ! this_peliculas m))
   \<and> devuelve m (buscarYFiltrar_m termino g m)
        (buscarYFiltrar termino g (arreglos m ! this_peliculas m))
   \<and> devuelve m (obtenerRecientes_m cantidad m)
        (obtenerRecientes cantidad (arreglos m ! this_peliculas m))
   \<and> devuelve m (ordenarPorCalificacion_m descendente m)
        (ordenarPorCalificacion descendente (arreglos m ! this_peliculas m))
   \<and> devuelve m (ordenarPorAno_m descendente m)
        (ordenarPorAno descendente (arreglos m ! this_peliculas m))"
  using todas_pura buscar_pura filtrar_pura buscarYFiltrar_pura recientes_pura
    calificacion_pura ano_pura
  by (simp add: obtenerPorId_m_def obtenerPorId_def)


text \<open>
  What the copy is for: on the sample memory, \<open>obtenerRecientes\<close> leaves the array of
  the manager as it is, where a \<^verbatim>\<open>sort\<close> of that array itself would reverse it.
\<close>

lemma ordenar_en_sitio:
  "arreglos (snd (obtenerRecientes_m None memoria_muestra)) ! this_peliculas memoria_muestra
     = arreglos memoria_muestra ! this_peliculas memoria_muestra
   \<and> arreglos (snd (sort_a cmp_recientes (this_peliculas memoria_muestra) memoria_muestra))
        ! this_peliculas memoria_muestra
     = rev (arreglos memoria_muestra ! this_peliculas memoria_muestra)"
  by (simp add: obtenerRecientes_m_def spread_a_def sort_a_def slice_a_def nuevo_def
      memoria_muestra_def js_sort_def cmp_recientes_def peliculasIniciales_def Pelicula_def
      lecturas_sucesivas_def)

end
